theory Spec2Isabelle
  imports Complex_Main
begin

section \<open>Values, errors and paths\<close>

text \<open>
  JavaScript values as far as the configuration code inspects them: what \<open>JSON.parse\<close>
  and a dynamic \<open>import\<close> can hand to the schema. Numbers are the finite ones, kept as
  rationals; an object is its list of own properties, read with \<open>map_of\<close>.
\<close>

datatype jsval =
    JUndefined
  | JNull
  | JBool bool
  | JNum rat
  | JStr string
  | JArr "jsval list"
  | JObj "(string \<times> jsval) list"

text \<open>
  Whatever a \<open>throw\<close> can carry. Every constructor but \<open>ThrownValue\<close> is an instance of
  \<open>Error\<close> with its message; \<open>ThrownValue\<close> is any other thrown value, kept as the string
  \<open>String(value)\<close> renders.
\<close>

datatype error =
    ZodError string
  | SyntaxError string
  | ErrnoException string
  | ImportFailure string
  | NotARepositoryError string
  | WorktreeCreationError string
  | ProcessError string
  | ThrownValue string

definition bindE :: "error + 'a \<Rightarrow> ('a \<Rightarrow> error + 'b) \<Rightarrow> error + 'b" where
  "bindE m f = (case m of Inl e \<Rightarrow> Inl e | Inr a \<Rightarrow> f a)"

text \<open>JavaScript truthiness: \<open>if (v)\<close>, \<open>a || b\<close>, \<open>!v\<close>.\<close>

fun truthy :: "jsval \<Rightarrow> bool" where
  "truthy JUndefined = False"
| "truthy JNull = False"
| "truthy (JBool b) = b"
| "truthy (JNum r) = (r \<noteq> 0)"
| "truthy (JStr s) = (s \<noteq> [])"
| "truthy (JArr _) = True"
| "truthy (JObj _) = True"

text \<open>\<open>obj.key\<close>: the property, or \<open>undefined\<close> when the object has none.\<close>

definition field :: "(string \<times> jsval) list \<Rightarrow> string \<Rightarrow> jsval" where
  "field fs k = (case map_of fs k of None \<Rightarrow> JUndefined | Some v \<Rightarrow> v)"

subsection \<open>node:path, POSIX flavour\<close>

fun split_on :: "char \<Rightarrow> string \<Rightarrow> string list" where
  "split_on c [] = [[]]"
| "split_on c (x # xs) =
     (if x = c then [] # split_on c xs
      else (case split_on c xs of
              [] \<Rightarrow> [[x]]
            | s # ss \<Rightarrow> (x # s) # ss))"

fun join_with :: "string \<Rightarrow> string list \<Rightarrow> string" where
  "join_with sep [] = []"
| "join_with sep [s] = s"
| "join_with sep (s # t # ss) = s @ sep @ join_with sep (t # ss)"

text \<open>
  One step of \<open>normalizeString\<close>: the segments kept so far are a stack, newest first.
  Empty segments and \<open>.\<close> vanish, \<open>..\<close> drops the segment before it; above the start of a
  relative path (\<open>allowAbove\<close>) the \<open>..\<close> is kept, above the root it is dropped.
\<close>

definition norm_step :: "bool \<Rightarrow> string list \<Rightarrow> string \<Rightarrow> string list" where
  "norm_step allowAbove st seg =
     (if seg = [] \<or> seg = ''.'' then st
      else if seg = ''..'' then
        (case st of
           [] \<Rightarrow> (if allowAbove then [''..''] else [])
         | t # ts \<Rightarrow> (if t = ''..'' then ''..'' # st else ts))
      else seg # st)"

definition normalizeString :: "bool \<Rightarrow> string \<Rightarrow> string" where
  "normalizeString allowAbove p =
     join_with ''/'' (rev (foldl (norm_step allowAbove) [] (split_on CHR ''/'' p)))"

definition isAbsolute :: "string \<Rightarrow> bool" where
  "isAbsolute p = (case p of [] \<Rightarrow> False | c # _ \<Rightarrow> c = CHR ''/'')"

definition path_normalize :: "string \<Rightarrow> string" where
  "path_normalize p =
     (if p = [] then ''.''
      else
        (let ab = isAbsolute p;
             trailing = (last p = CHR ''/'');
             q = normalizeString (\<not> ab) p;
             q1 = (if q = [] \<and> \<not> ab then ''.'' else q);
             q2 = (if q1 \<noteq> [] \<and> trailing then q1 @ ''/'' else q1)
         in if ab then CHR ''/'' # q2 else q2))"

definition path_join :: "string list \<Rightarrow> string" where
  "path_join parts =
     (let joined = join_with ''/'' (filter (\<lambda>p. p \<noteq> []) parts)
      in if joined = [] then ''.'' else path_normalize joined)"

text \<open>
  \<open>resolve(p)\<close> with one argument: an absolute path is normalised, a relative one is taken
  from the working directory. The result has no trailing separator.
\<close>

definition path_resolve :: "string \<Rightarrow> string \<Rightarrow> string" where
  "path_resolve cwd p =
     (let full = (if isAbsolute p then p else cwd @ ''/'' @ p)
      in CHR ''/'' # normalizeString False full)"

section \<open>Configuration (core/config.ts)\<close>

datatype BranchType = Feat | Fix | Refactor | Docs | Chore | Test

datatype TerminalType = Wezterm | Tmux | Kitty | NoTerminal

record HooksConfig =
  afterCreate :: "string list option"
  beforeDestroy :: "string list option"

record Config =
  worktreesDir :: string
  defaultBranchType :: BranchType
  maxBranchSlugLength :: nat
  hooks :: HooksConfig
  terminal :: TerminalType
  autoOpenTerminal :: bool
  autoRunHooks :: bool
  defaultBaseBranch :: string
  useAiBranchNaming :: bool

subsection \<open>The schema\<close>

text \<open>\<open>.default(d)\<close>: an \<open>undefined\<close> input yields \<open>d\<close>, anything else goes to the inner schema.\<close>

definition with_default :: "'a \<Rightarrow> (jsval \<Rightarrow> error + 'a) \<Rightarrow> jsval \<Rightarrow> error + 'a" where
  "with_default d p v = (if v = JUndefined then Inr d else p v)"

text \<open>\<open>.optional()\<close>: an \<open>undefined\<close> input stays absent.\<close>

definition optional :: "(jsval \<Rightarrow> error + 'a) \<Rightarrow> jsval \<Rightarrow> error + 'a option" where
  "optional p v = (if v = JUndefined then Inr None else bindE (p v) (\<lambda>a. Inr (Some a)))"

definition z_string :: "jsval \<Rightarrow> error + string" where
  "z_string v = (case v of JStr s \<Rightarrow> Inr s | _ \<Rightarrow> Inl (ZodError ''expected string''))"

definition z_boolean :: "jsval \<Rightarrow> error + bool" where
  "z_boolean v = (case v of JBool b \<Rightarrow> Inr b | _ \<Rightarrow> Inl (ZodError ''expected boolean''))"

text \<open>
  The code does not fix the version of zod, and the versions differ on \<open>.int()\<close>: version 3
  accepts every integer, version 4 only the safe ones, up to \<open>2^53 - 1\<close> in absolute value.
  The version is a parameter (\<open>zv\<close>) of everything that validates.
\<close>

datatype ZodVersion = Zod3 | Zod4

text \<open>\<open>z.number().int().positive()\<close>\<close>

definition z_positive_int :: "ZodVersion \<Rightarrow> jsval \<Rightarrow> error + nat" where
  "z_positive_int zv v =
     (case v of
        JNum r \<Rightarrow>
          (if of_int \<lfloor>r\<rfloor> \<noteq> r then Inl (ZodError ''expected integer'')
           else if zv = Zod4 \<and> 9007199254740991 < \<bar>r\<bar>
           then Inl (ZodError ''expected safe integer'')
           else if \<not> 0 < r then Inl (ZodError ''expected positive'')
           else Inr (nat \<lfloor>r\<rfloor>))
      | _ \<Rightarrow> Inl (ZodError ''expected number''))"

fun z_string_array_items :: "jsval list \<Rightarrow> error + string list" where
  "z_string_array_items [] = Inr []"
| "z_string_array_items (v # vs) =
     bindE (z_string v) (\<lambda>s. bindE (z_string_array_items vs) (\<lambda>ss. Inr (s # ss)))"

definition z_string_array :: "jsval \<Rightarrow> error + string list" where
  "z_string_array v =
     (case v of JArr vs \<Rightarrow> z_string_array_items vs | _ \<Rightarrow> Inl (ZodError ''expected array''))"

definition terminalTypeSchema :: "jsval \<Rightarrow> error + TerminalType" where
  "terminalTypeSchema v =
     (case v of
        JStr s \<Rightarrow>
          (if s = ''wezterm'' then Inr Wezterm
           else if s = ''tmux'' then Inr Tmux
           else if s = ''kitty'' then Inr Kitty
           else if s = ''none'' then Inr NoTerminal
           else Inl (ZodError ''invalid enum value''))
      | _ \<Rightarrow> Inl (ZodError ''invalid enum value''))"

text \<open>
  Modelled from the spec: \<open>branchTypeSchema\<close> of core/naming.ts, which is not among the
  sources. The spec gives the branch types as the enum feat, fix, refactor, docs, chore, test.
\<close>

definition branchTypeSchema :: "jsval \<Rightarrow> error + BranchType" where
  "branchTypeSchema v =
     (case v of
        JStr s \<Rightarrow>
          (if s = ''feat'' then Inr Feat
           else if s = ''fix'' then Inr Fix
           else if s = ''refactor'' then Inr Refactor
           else if s = ''docs'' then Inr Docs
           else if s = ''chore'' then Inr Chore
           else if s = ''test'' then Inr Test
           else Inl (ZodError ''invalid enum value''))
      | _ \<Rightarrow> Inl (ZodError ''invalid enum value''))"

text \<open>
  Modelled from the spec: \<open>hooksConfigSchema\<close> of core/hooks.ts, which is not among the
  sources. The spec names two hook command lists, \<open>afterCreate\<close> and \<open>beforeDestroy\<close>; the
  tests of core/config.ts build a \<open>Config\<close> with \<open>hooks: {}\<close> and with only \<open>afterCreate\<close>,
  so both lists are optional arrays of strings.
\<close>

definition hooksConfigSchema :: "jsval \<Rightarrow> error + HooksConfig" where
  "hooksConfigSchema v =
     (case v of
        JObj fs \<Rightarrow>
          bindE (optional z_string_array (field fs ''afterCreate'')) (\<lambda>ac.
          bindE (optional z_string_array (field fs ''beforeDestroy'')) (\<lambda>bd.
          Inr \<lparr>afterCreate = ac, beforeDestroy = bd\<rparr>))
      | _ \<Rightarrow> Inl (ZodError ''expected object''))"

text \<open>
  \<open>configSchema.parse\<close>. The value \<open>defaultHooks\<close> of core/hooks.ts is not among the sources
  and is a parameter (\<open>dh\<close>) of everything that mentions it. Unknown keys are stripped.
\<close>

definition configSchema :: "ZodVersion \<Rightarrow> HooksConfig \<Rightarrow> jsval \<Rightarrow> error + Config" where
  "configSchema zv dh v =
     (case v of
        JObj fs \<Rightarrow>
          bindE (with_default ''./worktrees'' z_string (field fs ''worktreesDir'')) (\<lambda>wd.
          bindE (with_default Feat branchTypeSchema (field fs ''defaultBranchType'')) (\<lambda>bt.
          bindE (with_default 40 (z_positive_int zv) (field fs ''maxBranchSlugLength'')) (\<lambda>ml.
          bindE (with_default dh hooksConfigSchema (field fs ''hooks'')) (\<lambda>hk.
          bindE (with_default Wezterm terminalTypeSchema (field fs ''terminal'')) (\<lambda>tm.
          bindE (with_default True z_boolean (field fs ''autoOpenTerminal'')) (\<lambda>ot.
          bindE (with_default True z_boolean (field fs ''autoRunHooks'')) (\<lambda>rh.
          bindE (with_default ''main'' z_string (field fs ''defaultBaseBranch'')) (\<lambda>bb.
          bindE (with_default True z_boolean (field fs ''useAiBranchNaming'')) (\<lambda>ai.
          Inr \<lparr>worktreesDir = wd, defaultBranchType = bt, maxBranchSlugLength = ml,
               hooks = hk, terminal = tm, autoOpenTerminal = ot, autoRunHooks = rh,
               defaultBaseBranch = bb, useAiBranchNaming = ai\<rparr>)))))))))
      | _ \<Rightarrow> Inl (ZodError ''expected object''))"

definition defaultConfig :: "HooksConfig \<Rightarrow> Config" where
  "defaultConfig dh =
     \<lparr>worktreesDir = ''./worktrees'',
      defaultBranchType = Feat,
      maxBranchSlugLength = 40,
      hooks = dh,
      terminal = Wezterm,
      autoOpenTerminal = True,
      autoRunHooks = True,
      defaultBaseBranch = ''main'',
      useAiBranchNaming = True\<rparr>"

definition mergeConfig :: "ZodVersion \<Rightarrow> HooksConfig \<Rightarrow> jsval \<Rightarrow> error + Config" where
  "mergeConfig zv dh partial = configSchema zv dh partial"

text \<open>\<open>safeParse\<close>: the same validation, the outcome returned instead of thrown.\<close>

datatype ConfigValidationResult = Success Config | Failure error

definition validateConfig :: "ZodVersion \<Rightarrow> HooksConfig \<Rightarrow> jsval \<Rightarrow> ConfigValidationResult" where
  "validateConfig zv dh v =
     (case configSchema zv dh v of Inl e \<Rightarrow> Failure e | Inr c \<Rightarrow> Success c)"

subsection \<open>Hooks\<close>

text \<open>\<open>!xs?.length\<close>: true of an absent list and of an empty one.\<close>

definition no_length :: "string list option \<Rightarrow> bool" where
  "no_length xs = (case xs of None \<Rightarrow> True | Some l \<Rightarrow> length l = 0)"

text \<open>
  The body of \<open>getHooksConfig\<close> on the value read from \<open>config.hooks\<close>; \<open>None\<close> is the
  \<open>undefined\<close> that the guard \<open>!hooks\<close> tests for and that the type \<open>Config\<close> excludes.
\<close>

definition resolveHooks :: "HooksConfig \<Rightarrow> HooksConfig option \<Rightarrow> HooksConfig" where
  "resolveHooks dh h =
     (case h of
        None \<Rightarrow> dh
      | Some hk \<Rightarrow>
          (if no_length (afterCreate hk) \<and> no_length (beforeDestroy hk) then dh else hk))"

definition getHooksConfig :: "HooksConfig \<Rightarrow> Config \<Rightarrow> HooksConfig" where
  "getHooksConfig dh config = resolveHooks dh (Some (hooks config))"

subsection \<open>Loading\<close>

text \<open>
  What the loader reads from the outside world: \<open>fs.access\<close>, \<open>fs.readFile\<close>,
  \<open>JSON.parse\<close>, the dynamic \<open>import\<close> (the namespace object of the module, as its list
  of exports) and the working directory that \<open>resolve\<close> starts from. Each call either
  returns or throws.
\<close>

record Env =
  cwd :: string
  fs_access :: "string \<Rightarrow> error + unit"
  fs_readFile :: "string \<Rightarrow> error + string"
  JSON_parse :: "string \<Rightarrow> error + jsval"
  dynamic_import :: "string \<Rightarrow> error + (string \<times> jsval) list"

datatype ConfigSource = OpencodeConfigTs | Json | Default

record LoadConfigResult =
  config :: Config
  source :: ConfigSource
  configPath :: "string option"

definition CONFIG_FILES :: "string list" where
  "CONFIG_FILES = [''.opencode/transmute.config.json'', ''transmute.config.json'']"

definition fileExists :: "Env \<Rightarrow> string \<Rightarrow> error + bool" where
  "fileExists env path =
     (case fs_access env path of
        Inr _ \<Rightarrow> Inr True
      | Inl _ \<Rightarrow> Inr False)"

fun findConfigFile_from :: "Env \<Rightarrow> string \<Rightarrow> string list \<Rightarrow> error + string option" where
  "findConfigFile_from env basePath [] = Inr None"
| "findConfigFile_from env basePath (configFile # rest) =
     (let fullPath = path_join [basePath, configFile]
      in bindE (fileExists env fullPath) (\<lambda>ex.
           if ex then Inr (Some fullPath) else findConfigFile_from env basePath rest))"

definition findConfigFile :: "Env \<Rightarrow> string \<Rightarrow> error + string option" where
  "findConfigFile env basePath = findConfigFile_from env basePath CONFIG_FILES"

definition loadConfigFromFile :: "Env \<Rightarrow> string \<Rightarrow> error + jsval" where
  "loadConfigFromFile env path =
     bindE (fs_readFile env path) (\<lambda>content.
     bindE (JSON_parse env content) (\<lambda>json. Inr json))"

text \<open>\<open>typeof v === "object"\<close> and \<open>key in v\<close> (own properties of a plain object).\<close>

definition typeof_object :: "jsval \<Rightarrow> bool" where
  "typeof_object v = (case v of JNull \<Rightarrow> True | JArr _ \<Rightarrow> True | JObj _ \<Rightarrow> True | _ \<Rightarrow> False)"

definition has_property :: "string \<Rightarrow> jsval \<Rightarrow> bool" where
  "has_property k v = (case v of JObj fs \<Rightarrow> map_of fs k \<noteq> None | _ \<Rightarrow> False)"

definition property :: "jsval \<Rightarrow> string \<Rightarrow> jsval" where
  "property v k = (case v of JObj fs \<Rightarrow> field fs k | _ \<Rightarrow> JUndefined)"

definition loadConfigFromOpencodeConfig :: "Env \<Rightarrow> string \<Rightarrow> error + jsval" where
  "loadConfigFromOpencodeConfig env basePath =
     (let configPath = path_join [basePath, ''opencode.config.ts'']
      in bindE (fileExists env configPath) (\<lambda>ex.
           if \<not> ex then Inr JUndefined
           else
             (case bindE (dynamic_import env (path_resolve (cwd env) configPath)) (\<lambda>module.
                     let cfg = (if truthy (field module ''default'')
                                then field module ''default'' else JObj module)
                     in if truthy cfg \<and> typeof_object cfg \<and> has_property ''transmute'' cfg
                        then Inr (property cfg ''transmute'')
                        else Inr JUndefined)
              of Inr v \<Rightarrow> Inr v
               | Inl _ \<Rightarrow> Inr JUndefined)))"

definition loadConfig ::
  "ZodVersion \<Rightarrow> HooksConfig \<Rightarrow> Env \<Rightarrow> string \<Rightarrow> error + LoadConfigResult" where
  "loadConfig zv dh env basePath =
     (case bindE (loadConfigFromOpencodeConfig env basePath) (\<lambda>opencodeConfig.
             if truthy opencodeConfig
             then bindE (mergeConfig zv dh opencodeConfig) (\<lambda>c.
                    Inr (Some \<lparr>config = c, source = OpencodeConfigTs,
                               configPath = Some (path_join [basePath, ''opencode.config.ts''])\<rparr>))
             else Inr None)
      of Inr (Some r) \<Rightarrow> Inr r
       | _ \<Rightarrow>
          bindE (findConfigFile env basePath) (\<lambda>jsonConfigPath.
            let defaults = \<lparr>config = defaultConfig dh, source = Default, configPath = None\<rparr>
            in (case jsonConfigPath of
                  None \<Rightarrow> Inr defaults
                | Some p \<Rightarrow>
                    (if p = [] then Inr defaults
                     else
                       (case bindE (loadConfigFromFile env p) (\<lambda>partialConfig.
                               bindE (mergeConfig zv dh partialConfig) (\<lambda>c.
                               Inr \<lparr>config = c, source = Json, configPath = Some p\<rparr>))
                        of Inr r \<Rightarrow> Inr r
                         | Inl _ \<Rightarrow> Inr defaults)))))"

subsection \<open>The precedence of the sources, as the specification words it\<close>

text \<open>
  The specification: the sources are, highest first, (a) a structured configuration source
  discoverable at a conventional path exposing a recognized sub-section, (b) a JSON file at
  one of two conventional locations, (c) the built-in defaults; each candidate is attempted
  in order, and a parse or validation failure at one level falls through to the next. The
  definitions below say this over the environment alone, without the functions of the code.
\<close>

text \<open>
  (a) The source is discoverable when \<open>opencode.config.ts\<close> under the base path can be
  accessed and imported; it exposes the sub-section when its configuration object (the
  default export, else the module) has the key \<open>transmute\<close>.
\<close>

definition exposed_section :: "Env \<Rightarrow> string \<Rightarrow> jsval option" where
  "exposed_section env basePath =
     (let file = path_join [basePath, ''opencode.config.ts'']
      in case fs_access env file of
           Inl _ \<Rightarrow> None
         | Inr _ \<Rightarrow>
             (case dynamic_import env (path_resolve (cwd env) file) of
                Inl _ \<Rightarrow> None
              | Inr exports \<Rightarrow>
                  (case (if truthy (field exports ''default'')
                         then field exports ''default'' else JObj exports) of
                     JObj fs \<Rightarrow> map_of fs ''transmute''
                   | _ \<Rightarrow> None)))"

text \<open>The attempt at (a) succeeds when the exposed section validates.\<close>

definition attempt_opencode_config ::
  "ZodVersion \<Rightarrow> HooksConfig \<Rightarrow> Env \<Rightarrow> string \<Rightarrow> LoadConfigResult option" where
  "attempt_opencode_config zv dh env basePath =
     (case exposed_section env basePath of
        None \<Rightarrow> None
      | Some section \<Rightarrow>
          (case configSchema zv dh section of
             Inl _ \<Rightarrow> None
           | Inr c \<Rightarrow> Some \<lparr>config = c, source = OpencodeConfigTs,
                            configPath = Some (path_join [basePath, ''opencode.config.ts''])\<rparr>))"

text \<open>
  (b) The JSON file is the first of the two locations that can be accessed,
  \<open>.opencode/transmute.config.json\<close> before \<open>transmute.config.json\<close>. The two locations are
  one level: when the file found does not parse, the other location is not the next level.
\<close>

definition json_location :: "Env \<Rightarrow> string \<Rightarrow> string option" where
  "json_location env basePath =
     find (\<lambda>p. case fs_access env p of Inl _ \<Rightarrow> False | Inr _ \<Rightarrow> True)
       [path_join [basePath, ''.opencode/transmute.config.json''],
        path_join [basePath, ''transmute.config.json'']]"

text \<open>The attempt at (b) succeeds when the file can be read, parses as JSON and validates.\<close>

definition attempt_json_file ::
  "ZodVersion \<Rightarrow> HooksConfig \<Rightarrow> Env \<Rightarrow> string \<Rightarrow> LoadConfigResult option" where
  "attempt_json_file zv dh env basePath =
     (case json_location env basePath of
        None \<Rightarrow> None
      | Some p \<Rightarrow>
          (case fs_readFile env p of
             Inl _ \<Rightarrow> None
           | Inr content \<Rightarrow>
               (case JSON_parse env content of
                  Inl _ \<Rightarrow> None
                | Inr json \<Rightarrow>
                    (case configSchema zv dh json of
                       Inl _ \<Rightarrow> None
                     | Inr c \<Rightarrow> Some \<lparr>config = c, source = Json, configPath = Some p\<rparr>))))"

text \<open>Attempting in order: the first attempt that yields a result gives it, else (c).\<close>

fun first_success :: "'a option list \<Rightarrow> 'a \<Rightarrow> 'a" where
  "first_success [] d = d"
| "first_success (None # rest) d = first_success rest d"
| "first_success (Some r # rest) d = r"

section \<open>The plugin's start-task tool\<close>

text \<open>
  The terminal adapters. \<open>createWezTermAdapter\<close> (adapters/terminal/wezterm.ts) is not among
  the sources; its result is named by the constructor.
\<close>

datatype TerminalAdapter = WezTermAdapter

definition createTerminalAdapter :: "Config \<Rightarrow> TerminalAdapter option" where
  "createTerminalAdapter cfg =
     (case terminal cfg of
        Wezterm \<Rightarrow> Some WezTermAdapter
      | NoTerminal \<Rightarrow> None
      | _ \<Rightarrow> Some WezTermAdapter)"

datatype Status = Created | Existing | Failed

record WorkspaceResult =
  status :: Status
  res_taskId :: string
  res_taskName :: "string option"
  res_branch :: "string option"
  res_worktreePath :: "string option"
  res_opencodeSessionId :: "string option"
  message :: "string option"

text \<open>The arguments of the tool, as its schema lets them in: strings, four of them optional.\<close>

record StartTaskArgs =
  arg_taskId :: string
  arg_title :: string
  arg_description :: "string option"
  arg_priority :: "string option"
  arg_type :: "string option"
  arg_baseBranch :: "string option"

text \<open>The third argument of \<open>startTask\<close>; \<open>'c\<close> is the client of the host.\<close>

record 'c StartTaskOptions =
  opt_client :: "'c option"
  opt_opencodeSessionId :: string
  opt_terminal :: "TerminalAdapter option"
  opt_openTerminal :: bool
  opt_runHooks :: bool
  opt_hooks :: HooksConfig

text \<open>The object handed to \<open>JSON.stringify\<close>; an \<open>undefined\<close> property is an absent one.\<close>

record ToolPayload =
  p_status :: Status
  p_message :: string
  p_taskId :: string
  p_taskName :: "string option"
  p_branch :: "string option"
  p_worktreePath :: "string option"
  p_opencodeSessionId :: "string option"
  p_configSource :: "ConfigSource option"

text \<open>\<open>error instanceof Error ? error.message : String(error)\<close>\<close>

definition errorMessage :: "error \<Rightarrow> string" where
  "errorMessage e =
     (case e of
        ZodError m \<Rightarrow> m
      | SyntaxError m \<Rightarrow> m
      | ErrnoException m \<Rightarrow> m
      | ImportFailure m \<Rightarrow> m
      | NotARepositoryError m \<Rightarrow> m
      | WorktreeCreationError m \<Rightarrow> m
      | ProcessError m \<Rightarrow> m
      | ThrownValue s \<Rightarrow> s)"

text \<open>\<open>a || b\<close> on an optional string and on a string.\<close>

definition or_else :: "string option \<Rightarrow> string \<Rightarrow> string" where
  "or_else a b = (case a of None \<Rightarrow> b | Some s \<Rightarrow> (if s = [] then b else s))"

text \<open>
  \<open>execute\<close> of the plugin that loads the configuration at start-up. \<open>startTask\<close>
  (tools/start-task.ts) is not among the sources and is a parameter: a call of it returns a
  \<open>WorkspaceResult\<close> or throws. \<open>cfg\<close>, \<open>src\<close>, \<open>basePath\<close>, \<open>client\<close>, \<open>adapter\<close> and
  \<open>hks\<close> are the variables the closure captured at start-up.
\<close>

definition execute ::
  "(StartTaskArgs \<Rightarrow> string \<Rightarrow> 'c StartTaskOptions \<Rightarrow> error + WorkspaceResult) \<Rightarrow>
   Config \<Rightarrow> ConfigSource \<Rightarrow> string \<Rightarrow> 'c \<Rightarrow> TerminalAdapter option \<Rightarrow> HooksConfig \<Rightarrow>
   StartTaskArgs \<Rightarrow> string \<Rightarrow> error + ToolPayload" where
  "execute startTask cfg src basePath client adapter hks args sessionID =
     (case
        bindE (startTask
                 (args\<lparr>arg_baseBranch := Some (or_else (arg_baseBranch args) (defaultBaseBranch cfg))\<rparr>)
                 basePath
                 \<lparr>opt_client = (if useAiBranchNaming cfg then Some client else None),
                  opt_opencodeSessionId = sessionID,
                  opt_terminal = adapter,
                  opt_openTerminal = autoOpenTerminal cfg,
                  opt_runHooks = autoRunHooks cfg,
                  opt_hooks = hks\<rparr>) (\<lambda>result.
          let msg =
                (if status result = Created
                 then ''Created new worktree for task: '' @ res_taskId result
                 else if status result = Existing
                 then ''Resumed existing worktree for task: '' @ res_taskId result
                 else or_else (message result) (''Failed to start task: '' @ res_taskId result))
          in Inr \<lparr>p_status = status result, p_message = msg, p_taskId = res_taskId result,
                  p_taskName = res_taskName result, p_branch = res_branch result,
                  p_worktreePath = res_worktreePath result,
                  p_opencodeSessionId = res_opencodeSessionId result,
                  p_configSource = Some src\<rparr>)
      of Inr payload \<Rightarrow> Inr payload
       | Inl err \<Rightarrow>
           Inr \<lparr>p_status = Failed, p_message = ''Error: '' @ errorMessage err,
                p_taskId = or_else (Some (arg_taskId args)) ''unknown'',
                p_taskName = None, p_branch = None, p_worktreePath = None,
                p_opencodeSessionId = None, p_configSource = None\<rparr>)"

text \<open>
  \<open>execute\<close> of the plugin without configuration: the repository root is looked up inside
  the call (\<open>getGitRoot\<close>, core/exec.ts, not among the sources: it returns the root or
  throws), the adapter is always WezTerm, the hooks are fixed, and nothing is caught.
\<close>

definition execute_without_config ::
  "(error + string) \<Rightarrow>
   (StartTaskArgs \<Rightarrow> string \<Rightarrow> 'c StartTaskOptions \<Rightarrow> error + WorkspaceResult) \<Rightarrow>
   'c \<Rightarrow> StartTaskArgs \<Rightarrow> string \<Rightarrow> error + ToolPayload" where
  "execute_without_config getGitRoot startTask client args sessionID =
     bindE getGitRoot (\<lambda>basePath.
     bindE (startTask args basePath
              \<lparr>opt_client = Some client,
               opt_opencodeSessionId = sessionID,
               opt_terminal = Some WezTermAdapter,
               opt_openTerminal = True,
               opt_runHooks = True,
               opt_hooks = \<lparr>afterCreate = Some [''[ -f package.json ] && pnpm install || true''],
                            beforeDestroy = None\<rparr>\<rparr>) (\<lambda>result.
       Inr \<lparr>p_status = status result,
            p_message =
              (if status result = Created
               then ''Created new worktree for task: '' @ res_taskId result
               else ''Resumed existing worktree for task: '' @ res_taskId result),
            p_taskId = res_taskId result,
            p_taskName = res_taskName result, p_branch = res_branch result,
            p_worktreePath = res_worktreePath result,
            p_opencodeSessionId = res_opencodeSessionId result,
            p_configSource = None\<rparr>))"


section \<open>The workspace core, modelled from the specification\<close>

text \<open>
  The modules core/naming.ts, core/worktree.ts, core/session.ts, core/hooks.ts and
  tools/create-workspace.ts are not among the sources; the sources hold their callers and
  their integration test. Every definition of this section follows the specification of
  these modules.
\<close>

subsection \<open>Branch Namer\<close>

text \<open>
  Modelled from the spec: the \<open>BranchName\<close> of the data model (core/naming.ts, not among
  the sources), a branch type and a slug.
\<close>

record BranchName =
  bn_type :: BranchType
  slug :: string

text \<open>
  Modelled from the spec: the branch types as they are written in a branch string
  (core/naming.ts, not among the sources).
\<close>

definition branchType_name :: "BranchType \<Rightarrow> string" where
  "branchType_name t =
     (case t of Feat \<Rightarrow> ''feat'' | Fix \<Rightarrow> ''fix'' | Refactor \<Rightarrow> ''refactor''
              | Docs \<Rightarrow> ''docs'' | Chore \<Rightarrow> ''chore'' | Test \<Rightarrow> ''test'')"

text \<open>
  Modelled from the spec: the full branch string of a \<open>BranchName\<close> is \<open>type/slug\<close>
  (core/naming.ts, not among the sources).
\<close>

definition branch_string :: "BranchName \<Rightarrow> string" where
  "branch_string b = branchType_name (bn_type b) @ ''/'' @ slug b"

text \<open>\<open>toLowerCase\<close> of JavaScript on the letters A to Z; every other character stays.\<close>

definition toLowerCase_char :: "char \<Rightarrow> char" where
  "toLowerCase_char c =
     (case map_of (zip ''ABCDEFGHIJKLMNOPQRSTUVWXYZ'' ''abcdefghijklmnopqrstuvwxyz'') c of
        Some l \<Rightarrow> l
      | None \<Rightarrow> c)"

definition toLowerCase :: "string \<Rightarrow> string" where
  "toLowerCase s = map toLowerCase_char s"

text \<open>
  Modelled from the spec: the alphanumeric characters of a slug, \<open>[a-z0-9]\<close>
  (core/naming.ts, not among the sources).
\<close>

definition alphanumeric :: "char \<Rightarrow> bool" where
  "alphanumeric c = (c \<in> set ''abcdefghijklmnopqrstuvwxyz0123456789'')"

text \<open>
  Modelled from the spec: replacing each run of non-alphanumeric characters with a single
  hyphen (core/naming.ts, not among the sources); \<open>in_run\<close> says that the hyphen of the
  current run is already written.
\<close>

fun replace_runs :: "bool \<Rightarrow> string \<Rightarrow> string" where
  "replace_runs in_run [] = []"
| "replace_runs in_run (c # cs) =
     (if alphanumeric c then c # replace_runs False cs
      else if in_run then replace_runs True cs
      else CHR ''-'' # replace_runs True cs)"

text \<open>
  Modelled from the spec: trimming leading and trailing hyphens (core/naming.ts, not among
  the sources).
\<close>

definition trim_hyphens :: "string \<Rightarrow> string" where
  "trim_hyphens s =
     rev (dropWhile (\<lambda>c. c = CHR ''-'') (rev (dropWhile (\<lambda>c. c = CHR ''-'') s)))"

text \<open>
  Modelled from the spec: the slug derivation of \<open>generateBranchName\<close> (core/naming.ts, not
  among the sources): lower-casing, replacing non-alphanumeric runs with single hyphens,
  trimming leading and trailing hyphens, truncating to the configured maximum.
\<close>

definition slugify :: "nat \<Rightarrow> string \<Rightarrow> string" where
  "slugify maxLength text = take maxLength (trim_hyphens (replace_runs False (toLowerCase text)))"

text \<open>
  Modelled from the spec: the priorities of a task and the input of the invocation contract
  (tools/create-workspace.ts, not among the sources): \<open>taskId\<close> and \<open>title\<close> are required,
  the rest is optional.
\<close>

datatype Priority = Low | Medium | High | Critical

record CreateWorkspaceInput =
  in_taskId :: string
  in_title :: string
  in_description :: "string option"
  in_priority :: "Priority option"
  in_type :: "BranchType option"
  in_branchType :: "BranchType option"
  in_branchSlug :: "string option"
  in_baseBranch :: "string option"

text \<open>
  Modelled from the spec: \<open>generateBranchName\<close> (core/naming.ts, not among the sources).
  A supplied name is used verbatim and truncated when it is over length; the specification
  names no other outcome of validating it. Without a supplied name the type is the task's,
  else the configured default, and the slug is built in the order of the specification: the
  title is lower-cased, its non-alphanumeric runs are replaced, it is trimmed and truncated
  to the configured maximum, and the task id is put in front.
\<close>

definition generateBranchName ::
  "Config \<Rightarrow> CreateWorkspaceInput \<Rightarrow> BranchName option \<Rightarrow> BranchName" where
  "generateBranchName cfg task override =
     (case override of
        Some b \<Rightarrow> \<lparr>bn_type = bn_type b, slug = take (maxBranchSlugLength cfg) (slug b)\<rparr>
      | None \<Rightarrow>
          \<lparr>bn_type = (case in_type task of Some t \<Rightarrow> t | None \<Rightarrow> defaultBranchType cfg),
           slug = in_taskId task @ ''-'' @ slugify (maxBranchSlugLength cfg) (in_title task)\<rparr>)"

subsection \<open>Repository state, Worktree Manager, Session Store\<close>

text \<open>
  Modelled from the spec: the \<open>Session\<close> of the data model (core/session.ts, not among the
  sources); the timestamps are clock readings.
\<close>

record Session =
  taskId :: string
  taskName :: string
  branch :: string
  worktreePath :: string
  opencodeSessionId :: "string option"
  createdAt :: nat
  updatedAt :: nat

text \<open>
  Modelled from the spec: the state that the Worktree Manager and the Session Store
  (core/worktree.ts, core/session.ts, not among the sources) act on: the branches of the
  repository, its worktrees beyond the main one (path and branch), and the session file
  (\<open>None\<close> when it is missing or unreadable).
\<close>

record Repo =
  branches :: "string list"
  worktrees :: "(string \<times> string) list"
  stateFile :: "Session list option"

text \<open>
  Modelled from the spec: the fresh repository of the end-to-end scenarios, a \<open>main\<close>
  branch with one commit, no worktree, no session file.
\<close>

definition fresh_repository :: Repo where
  "fresh_repository = \<lparr>branches = [''main''], worktrees = [], stateFile = None\<rparr>"

text \<open>
  Modelled from the spec: the directory name of a branch, its name with every slash
  replaced by a dash (core/worktree.ts, not among the sources).
\<close>

definition replace_slashes :: "string \<Rightarrow> string" where
  "replace_slashes b = map (\<lambda>c. if c = CHR ''/'' then CHR ''-'' else c) b"

text \<open>
  Modelled from the spec: \<open>createWorktree\<close> (core/worktree.ts, not among the sources). The
  target path is \<open>basePath/worktreesDir/<branch with slashes replaced by dashes>\<close>; creation
  fails when the path or the branch is in use or the base branch is unknown, and else adds
  the branch and the worktree.
\<close>

definition createWorktree ::
  "Config \<Rightarrow> string \<Rightarrow> string \<Rightarrow> string \<Rightarrow> Repo \<Rightarrow> error + (string \<times> Repo)" where
  "createWorktree cfg newBranch baseBranch basePath repo =
     (let path = path_join [basePath, worktreesDir cfg, replace_slashes newBranch]
      in if path \<in> set (map fst (worktrees repo))
         then Inl (WorktreeCreationError (''Path already exists: '' @ path))
         else if newBranch \<in> set (branches repo)
         then Inl (WorktreeCreationError (''Branch already exists: '' @ newBranch))
         else if baseBranch \<notin> set (branches repo)
         then Inl (WorktreeCreationError (''Unknown base branch: '' @ baseBranch))
         else Inr (path, repo\<lparr>branches := branches repo @ [newBranch],
                              worktrees := worktrees repo @ [(path, newBranch)]\<rparr>))"

text \<open>
  Modelled from the spec: \<open>worktreeExists\<close> (core/worktree.ts, not among the sources) lists
  the worktrees and checks that the branch is among them.
\<close>

definition worktreeExists :: "string \<Rightarrow> Repo \<Rightarrow> bool" where
  "worktreeExists b repo = (b \<in> set (map snd (worktrees repo)))"

text \<open>
  Modelled from the spec: \<open>removeWorktree\<close> (core/worktree.ts, not among the sources)
  removes the worktree entry and does not touch the Session Store; on a path that is no
  worktree the subprocess exits non-zero.
\<close>

definition removeWorktree :: "string \<Rightarrow> bool \<Rightarrow> Repo \<Rightarrow> error + Repo" where
  "removeWorktree path force repo =
     (if path \<in> set (map fst (worktrees repo))
      then Inr (repo\<lparr>worktrees := filter (\<lambda>w. fst w \<noteq> path) (worktrees repo)\<rparr>)
      else Inl (ProcessError (''Not a working tree: '' @ path)))"

text \<open>
  Modelled from the spec: \<open>loadState\<close> (core/session.ts, not among the sources) reads the
  file if present; a missing or unreadable file is the empty state.
\<close>

definition loadState :: "Repo \<Rightarrow> Session list" where
  "loadState repo = (case stateFile repo of None \<Rightarrow> [] | Some sessions \<Rightarrow> sessions)"

text \<open>
  Modelled from the spec: \<open>findSessionByTask\<close> (core/session.ts, not among the sources).
\<close>

definition findSessionByTask :: "Repo \<Rightarrow> string \<Rightarrow> Session option" where
  "findSessionByTask repo tid = find (\<lambda>s. taskId s = tid) (loadState repo)"

text \<open>
  Modelled from the spec: the upsert by \<open>taskId\<close> of \<open>saveSession\<close> (core/session.ts, not
  among the sources): replace if present, else append.
\<close>

definition upsert :: "Session \<Rightarrow> Session list \<Rightarrow> Session list" where
  "upsert session sessions =
     (if list_ex (\<lambda>s. taskId s = taskId session) sessions
      then map (\<lambda>s. if taskId s = taskId session then session else s) sessions
      else sessions @ [session])"

text \<open>
  Modelled from the spec: \<open>saveSession\<close> (core/session.ts, not among the sources): load the
  full state, upsert, write the whole file back.
\<close>

definition saveSession :: "Repo \<Rightarrow> Session \<Rightarrow> Repo" where
  "saveSession repo session = repo\<lparr>stateFile := Some (upsert session (loadState repo))\<rparr>"

text \<open>
  Modelled from the spec: \<open>removeSession\<close> (core/session.ts, not among the sources): load,
  remove the matching entry, write back; an absent entry is a no-op.
\<close>

definition removeSession :: "Repo \<Rightarrow> string \<Rightarrow> Repo" where
  "removeSession repo tid =
     (if list_ex (\<lambda>s. taskId s = tid) (loadState repo)
      then repo\<lparr>stateFile := Some (filter (\<lambda>s. taskId s \<noteq> tid) (loadState repo))\<rparr>
      else repo)"

subsection \<open>Hook Runner, Terminal Adapter, Orchestrator\<close>

text \<open>
  Modelled from the spec: the collaborators of one orchestrator run (core/hooks.ts and the
  terminal adapter in use, not among the sources): the exit code of a hook command in a
  directory, the outcome of opening a terminal session in a directory with a title, and the
  clock.
\<close>

record Collaborators =
  hook_exit :: "string \<Rightarrow> string \<Rightarrow> nat"
  openSession :: "string \<Rightarrow> string \<Rightarrow> error + unit"
  now :: nat

text \<open>
  Modelled from the spec: \<open>runHooks\<close> (core/hooks.ts, not among the sources). Every command
  runs, in order; a non-zero exit is recorded and the next command still runs.
\<close>

fun runHooks :: "Collaborators \<Rightarrow> string list \<Rightarrow> string \<Rightarrow> string list" where
  "runHooks co [] dir = []"
| "runHooks co (cmd # cmds) dir =
     (if hook_exit co cmd dir \<noteq> 0 then cmd # runHooks co cmds dir else runHooks co cmds dir)"

text \<open>
  Modelled from the spec: the options of one call of \<open>createWorkspace\<close>
  (tools/create-workspace.ts, not among the sources), as the integration test passes them;
  a terminal adapter is given or not.
\<close>

record CreateWorkspaceOptions =
  cw_opencodeSessionId :: "string option"
  cw_terminal :: bool
  cw_openTerminal :: bool
  cw_runHooks :: bool
  cw_hooks :: HooksConfig

text \<open>
  Modelled from the spec: what a run reports besides its result (tools/create-workspace.ts,
  not among the sources): the hooks that failed, the terminal sessions asked for, the
  failures of opening them.
\<close>

record RunLog =
  failed_hooks :: "string list"
  terminal_calls :: "(string \<times> string) list"
  terminal_failures :: "error list"

definition empty_log :: RunLog where
  "empty_log = \<lparr>failed_hooks = [], terminal_calls = [], terminal_failures = []\<rparr>"

text \<open>
  Modelled from the spec: opening the terminal (tools/create-workspace.ts, not among the
  sources), if enabled and an adapter is given; a failure is reported and is not fatal.
\<close>

definition open_terminal ::
  "Collaborators \<Rightarrow> CreateWorkspaceOptions \<Rightarrow> string \<Rightarrow> string \<Rightarrow> RunLog \<Rightarrow> RunLog" where
  "open_terminal co opts dir title lg =
     (if cw_openTerminal opts \<and> cw_terminal opts
      then (case openSession co dir title of
              Inr _ \<Rightarrow> lg\<lparr>terminal_calls := terminal_calls lg @ [(dir, title)]\<rparr>
            | Inl e \<Rightarrow> lg\<lparr>terminal_calls := terminal_calls lg @ [(dir, title)],
                          terminal_failures := terminal_failures lg @ [e]\<rparr>)
      else lg)"

text \<open>
  Modelled from the spec: step 2 of \<open>createWorkspace\<close> (tools/create-workspace.ts, not
  among the sources). The session is reused: its \<open>opencodeSessionId\<close> and \<open>updatedAt\<close> are
  refreshed and saved, the terminal is opened if configured, no hook runs.
\<close>

definition resume_workspace ::
  "Collaborators \<Rightarrow> CreateWorkspaceOptions \<Rightarrow> Session \<Rightarrow> Repo \<Rightarrow> WorkspaceResult \<times> Repo \<times> RunLog" where
  "resume_workspace co opts s repo =
     (let s1 = s\<lparr>opencodeSessionId :=
                    (case cw_opencodeSessionId opts of
                       None \<Rightarrow> opencodeSessionId s
                     | Some i \<Rightarrow> Some i),
                 updatedAt := now co\<rparr>;
          repo1 = saveSession repo s1;
          lg = open_terminal co opts (worktreePath s1) (taskName s1) empty_log
      in (\<lparr>status = Existing, res_taskId = taskId s1,
           res_taskName = Some (taskName s1), res_branch = Some (branch s1),
           res_worktreePath = Some (worktreePath s1),
           res_opencodeSessionId = opencodeSessionId s1, message = None\<rparr>,
          repo1, lg))"

text \<open>
  Modelled from the spec: the branch name that the caller supplies
  (tools/create-workspace.ts, not among the sources), present when both \<open>branchType\<close> and
  \<open>branchSlug\<close> are given, as in the plugin of index.ts.
\<close>

definition supplied_branch_name :: "CreateWorkspaceInput \<Rightarrow> BranchName option" where
  "supplied_branch_name input =
     (case (in_branchType input, in_branchSlug input) of
        (Some t, Some sl) \<Rightarrow> (if sl = [] then None else Some \<lparr>bn_type = t, slug = sl\<rparr>)
      | _ \<Rightarrow> None)"

text \<open>
  Modelled from the spec: the base branch of a new worktree (tools/create-workspace.ts, not
  among the sources), the requested one or else the configured default.
\<close>

definition requested_base_branch :: "Config \<Rightarrow> CreateWorkspaceInput \<Rightarrow> string" where
  "requested_base_branch cfg input =
     (case in_baseBranch input of None \<Rightarrow> defaultBaseBranch cfg | Some b \<Rightarrow> b)"

text \<open>
  Modelled from the spec: step 3 of \<open>createWorkspace\<close> (tools/create-workspace.ts, not
  among the sources). The branch is named (a supplied name is reused), the worktree is
  created from the requested or configured base branch, the session is saved, the
  \<open>afterCreate\<close> hooks run if enabled, the terminal is opened if enabled. Hook and terminal
  failures are recorded and change nothing else.
\<close>

definition create_new_workspace ::
  "Config \<Rightarrow> Collaborators \<Rightarrow> CreateWorkspaceOptions \<Rightarrow> CreateWorkspaceInput \<Rightarrow> string \<Rightarrow>
   Session option \<Rightarrow> Repo \<Rightarrow> error + (WorkspaceResult \<times> Repo \<times> RunLog)" where
  "create_new_workspace cfg co opts input basePath stale repo =
     (let bn = generateBranchName cfg input (supplied_branch_name input)
      in bindE (createWorktree cfg (branch_string bn) (requested_base_branch cfg input)
                  basePath repo) (\<lambda>(path, repo1).
       let s1 = \<lparr>taskId = in_taskId input, taskName = in_title input,
                 branch = branch_string bn, worktreePath = path,
                 opencodeSessionId = cw_opencodeSessionId opts,
                 createdAt = (case stale of None \<Rightarrow> now co | Some s \<Rightarrow> createdAt s),
                 updatedAt = now co\<rparr>;
           repo2 = saveSession repo1 s1;
           lg1 = (if cw_runHooks opts
                  then empty_log\<lparr>failed_hooks :=
                         runHooks co (case afterCreate (cw_hooks opts) of
                                        None \<Rightarrow> []
                                      | Some cmds \<Rightarrow> cmds) path\<rparr>
                  else empty_log);
           lg2 = open_terminal co opts path (in_title input) lg1
       in Inr (\<lparr>status = Created, res_taskId = in_taskId input,
                res_taskName = Some (in_title input), res_branch = Some (branch_string bn),
                res_worktreePath = Some path,
                res_opencodeSessionId = cw_opencodeSessionId opts, message = None\<rparr>,
               repo2, lg2)))"

text \<open>
  Modelled from the spec: steps 1 to 3 of \<open>createWorkspace\<close> (tools/create-workspace.ts,
  not among the sources). The task is looked up; a session whose worktree path is still
  listed is reused; otherwise (no session, or its worktree is gone) a workspace is created.
\<close>

definition createWorkspace_steps ::
  "Config \<Rightarrow> Collaborators \<Rightarrow> CreateWorkspaceOptions \<Rightarrow> CreateWorkspaceInput \<Rightarrow> string \<Rightarrow> Repo \<Rightarrow>
   error + (WorkspaceResult \<times> Repo \<times> RunLog)" where
  "createWorkspace_steps cfg co opts input basePath repo =
     (case findSessionByTask repo (in_taskId input) of
        None \<Rightarrow> create_new_workspace cfg co opts input basePath None repo
      | Some s \<Rightarrow>
          (if worktreePath s \<in> set (map fst (worktrees repo))
           then Inr (resume_workspace co opts s repo)
           else create_new_workspace cfg co opts input basePath (Some s) repo))"

text \<open>
  Modelled from the spec: the boundary of \<open>createWorkspace\<close> (tools/create-workspace.ts, not
  among the sources), step 4. A failure of the steps becomes the result \<open>failed\<close> with the
  message of the failure; the repository is as it was.
\<close>

definition createWorkspace ::
  "Config \<Rightarrow> Collaborators \<Rightarrow> CreateWorkspaceOptions \<Rightarrow> CreateWorkspaceInput \<Rightarrow> string \<Rightarrow> Repo \<Rightarrow>
   WorkspaceResult \<times> Repo \<times> RunLog" where
  "createWorkspace cfg co opts input basePath repo =
     (case createWorkspace_steps cfg co opts input basePath repo of
        Inr r \<Rightarrow> r
      | Inl e \<Rightarrow>
          (\<lparr>status = Failed, res_taskId = in_taskId input, res_taskName = None,
            res_branch = None, res_worktreePath = None, res_opencodeSessionId = None,
            message = Some (errorMessage e)\<rparr>,
           repo, empty_log))"

section \<open>Examples\<close>

subsection \<open>Example environments\<close>

text \<open>
  A repository at \<open>/repo\<close> with the given files (path and content) and importable modules
  (path and exports). Of \<open>JSON.parse\<close> the examples need two facts: \<open>{}\<close> is the empty
  object, and the other contents they use are not JSON.
\<close>

definition example_env :: "(string \<times> string) list \<Rightarrow> (string \<times> (string \<times> jsval) list) list \<Rightarrow> Env" where
  "example_env files modules =
     \<lparr>cwd = ''/repo'',
      fs_access = (\<lambda>p. if map_of files p \<noteq> None \<or> map_of modules p \<noteq> None
                        then Inr () else Inl (ErrnoException ''ENOENT'')),
      fs_readFile = (\<lambda>p. case map_of files p of
                            Some content \<Rightarrow> Inr content
                          | None \<Rightarrow> Inl (ErrnoException ''ENOENT'')),
      JSON_parse = (\<lambda>s. if s = ''{}'' then Inr (JObj [])
                         else Inl (SyntaxError ''Unexpected token'')),
      dynamic_import = (\<lambda>p. case map_of modules p of
                               Some exports \<Rightarrow> Inr exports
                             | None \<Rightarrow> Inl (ImportFailure ''Cannot find module''))\<rparr>"

definition example_defaultHooks :: HooksConfig where
  "example_defaultHooks =
     \<lparr>afterCreate = Some [''[ -f package.json ] && pnpm install || true''],
      beforeDestroy = None\<rparr>"

definition example_args :: StartTaskArgs where
  "example_args =
     \<lparr>arg_taskId = ''task-1'', arg_title = ''Integration Test Task'',
      arg_description = Some ''Testing the full flow'', arg_priority = Some ''high'',
      arg_type = None, arg_baseBranch = None\<rparr>"

subsection \<open>Example runs\<close>

definition example_collaborators :: Collaborators where
  "example_collaborators =
     \<lparr>hook_exit = (\<lambda>cmd dir. 0), openSession = (\<lambda>dir title. Inr ()), now = 1\<rparr>"

definition example_options :: CreateWorkspaceOptions where
  "example_options =
     \<lparr>cw_opencodeSessionId = Some ''session-123'', cw_terminal = True,
      cw_openTerminal = True, cw_runHooks = False, cw_hooks = example_defaultHooks\<rparr>"

definition scenario_A_input :: CreateWorkspaceInput where
  "scenario_A_input =
     \<lparr>in_taskId = ''task-1'', in_title = ''Integration Test Task'',
      in_description = Some ''Testing the full flow'', in_priority = Some High,
      in_type = None, in_branchType = None, in_branchSlug = None, in_baseBranch = None\<rparr>"

text \<open>
  A module whose \<open>transmute\<close> section sets \<open>worktreesDir\<close> and a \<open>maxBranchSlugLength\<close>
  that the schema rejects, beside a JSON file holding the empty object.
\<close>

definition invalid_section_env :: Env where
  "invalid_section_env =
     example_env [(''/repo/transmute.config.json'', ''{}'')]
       [(''/repo/opencode.config.ts'',
         [(''default'',
           JObj [(''transmute'',
                  JObj [(''worktreesDir'', JStr ''./from-module''),
                        (''maxBranchSlugLength'', JNum (- 1))])])])]"

text \<open>The same with a section that the schema accepts.\<close>

definition valid_section_env :: Env where
  "valid_section_env =
     example_env [(''/repo/transmute.config.json'', ''{}'')]
       [(''/repo/opencode.config.ts'',
         [(''default'',
           JObj [(''transmute'', JObj [(''worktreesDir'', JStr ''./from-module'')])])])]"

definition no_config_env :: Env where
  "no_config_env = example_env [] []"

definition broken_json_env :: Env where
  "broken_json_env =
     example_env [(''/repo/.opencode/transmute.config.json'', ''invalid json {{{'')] []"

definition broken_then_valid_json_env :: Env where
  "broken_then_valid_json_env =
     example_env [(''/repo/.opencode/transmute.config.json'', ''invalid json {{{''),
                  (''/repo/transmute.config.json'', ''{}'')] []"


definition resume_input :: CreateWorkspaceInput where
  "resume_input =
     \<lparr>in_taskId = ''task-2'', in_title = ''Resume Task'',
      in_description = None, in_priority = None, in_type = None,
      in_branchType = Some Fix, in_branchSlug = Some ''task-2-resume-task'',
      in_baseBranch = Some ''main''\<rparr>"

definition example_result :: WorkspaceResult where
  "example_result =
     \<lparr>status = Created, res_taskId = ''task-1'',
      res_taskName = Some ''Integration Test Task'',
      res_branch = Some ''feat/task-1-integration-test-task'',
      res_worktreePath = Some ''/repo/worktrees/feat-task-1-integration-test-task'',
      res_opencodeSessionId = Some ''session-123'', message = None\<rparr>"




section \<open>Properties of the configuration\<close>

lemma bindE_simps:
  "bindE (Inl e) f = Inl e"
  "bindE (Inr a) f = f a"
  by (simp_all add: bindE_def)

lemma mergeConfig_empty: "mergeConfig zv dh (JObj []) = Inr (defaultConfig dh)"
  by (simp add: mergeConfig_def configSchema_def defaultConfig_def field_def with_default_def
        bindE_simps)

text \<open>
  C8: every field of the configuration has a default and none is required. Validating the
  empty object succeeds and yields exactly the default configuration: worktreesDir
  "./worktrees", defaultBranchType "feat", maxBranchSlugLength 40, terminal "wezterm",
  autoOpenTerminal, autoRunHooks and useAiBranchNaming true, defaultBaseBranch "main", and
  the default hooks. \<open>parse\<close> and \<open>safeParse\<close> agree on it.
\<close>

theorem configSchema_empty_object_is_defaultConfig:
  "configSchema zv dh (JObj []) = Inr (defaultConfig dh)
   \<and> validateConfig zv dh (JObj []) = Success (defaultConfig dh)
   \<and> defaultConfig dh =
        \<lparr>worktreesDir = ''./worktrees'', defaultBranchType = Feat, maxBranchSlugLength = 40,
         hooks = dh, terminal = Wezterm, autoOpenTerminal = True, autoRunHooks = True,
         defaultBaseBranch = ''main'', useAiBranchNaming = True\<rparr>"
  by (simp add: configSchema_def validateConfig_def defaultConfig_def field_def
        with_default_def bindE_simps)

text \<open>
  C9: the default hooks cannot be switched off by an empty hooks section. When both
  \<open>afterCreate\<close> and \<open>beforeDestroy\<close> are empty or absent, \<open>getHooksConfig\<close> returns the
  default hooks and not the configured empty lists; as soon as one of the two lists is
  non-empty, the configured hooks are returned as they are.
\<close>

theorem getHooksConfig_empty_yields_defaults:
  "(afterCreate (hooks c) \<in> {None, Some []} \<and> beforeDestroy (hooks c) \<in> {None, Some []}
      \<longrightarrow> getHooksConfig dh c = dh)
   \<and> (\<not> (afterCreate (hooks c) \<in> {None, Some []} \<and> beforeDestroy (hooks c) \<in> {None, Some []})
      \<longrightarrow> getHooksConfig dh c = hooks c)"
  by (auto simp: getHooksConfig_def resolveHooks_def no_length_def split: option.splits)

theorem getHooksConfig_empty_yields_defaults_witness:
  "getHooksConfig example_defaultHooks
     ((defaultConfig example_defaultHooks)\<lparr>hooks := \<lparr>afterCreate = None, beforeDestroy = Some []\<rparr>\<rparr>)
     = example_defaultHooks
   \<and> getHooksConfig example_defaultHooks
       ((defaultConfig example_defaultHooks)\<lparr>hooks := \<lparr>afterCreate = Some [''npm ci''], beforeDestroy = None\<rparr>\<rparr>)
     = \<lparr>afterCreate = Some [''npm ci''], beforeDestroy = None\<rparr>"
  using getHooksConfig_empty_yields_defaults
          [of "(defaultConfig example_defaultHooks)\<lparr>hooks := \<lparr>afterCreate = None, beforeDestroy = Some []\<rparr>\<rparr>"
              example_defaultHooks]
        getHooksConfig_empty_yields_defaults
          [of "(defaultConfig example_defaultHooks)\<lparr>hooks := \<lparr>afterCreate = Some [''npm ci''], beforeDestroy = None\<rparr>\<rparr>"
              example_defaultHooks]
  by simp

text \<open>
  C10: the terminal adapter falls back to WezTerm for the variants that are not implemented.
  \<open>createTerminalAdapter\<close> returns no adapter exactly when the terminal is "none"; for
  "wezterm" and for the settings "tmux" and "kitty", which the schema accepts, it returns the
  WezTerm adapter.
\<close>

theorem createTerminalAdapter_falls_back_to_wezterm:
  "(createTerminalAdapter c = None) = (terminal c = NoTerminal)
   \<and> createTerminalAdapter (c\<lparr>terminal := Wezterm\<rparr>) = Some WezTermAdapter
   \<and> createTerminalAdapter (c\<lparr>terminal := Tmux\<rparr>) = Some WezTermAdapter
   \<and> createTerminalAdapter (c\<lparr>terminal := Kitty\<rparr>) = Some WezTermAdapter
   \<and> createTerminalAdapter (c\<lparr>terminal := NoTerminal\<rparr>) = None
   \<and> terminalTypeSchema (JStr ''tmux'') = Inr Tmux
   \<and> terminalTypeSchema (JStr ''kitty'') = Inr Kitty"
  by (cases "terminal c") (simp_all add: createTerminalAdapter_def terminalTypeSchema_def)

subsection \<open>Loading never fails\<close>

lemma fileExists_total: "\<exists>b. fileExists env p = Inr b"
  by (auto simp: fileExists_def split: sum.splits)

lemma findConfigFile_from_total: "\<exists>r. findConfigFile_from env bp fs = Inr r"
proof (induction fs)
  case Nil
  show ?case by simp
next
  case (Cons f fs)
  obtain b where b: "fileExists env (path_join [bp, f]) = Inr b"
    using fileExists_total by blast
  show ?case using Cons b by (simp add: bindE_simps Let_def)
qed

lemma findConfigFile_total: "\<exists>r. findConfigFile env bp = Inr r"
  by (simp add: findConfigFile_def findConfigFile_from_total)

lemma loadConfigFromOpencodeConfig_total: "\<exists>v. loadConfigFromOpencodeConfig env bp = Inr v"
proof -
  obtain b where b: "fileExists env (path_join [bp, ''opencode.config.ts'']) = Inr b"
    using fileExists_total by blast
  show ?thesis
    unfolding loadConfigFromOpencodeConfig_def Let_def
    by (simp add: b bindE_simps split: sum.splits)
qed

lemma repo_paths:
  "path_join [''/repo'', ''opencode.config.ts''] = ''/repo/opencode.config.ts''"
  "path_join [''/repo'', ''.opencode/transmute.config.json'']
     = ''/repo/.opencode/transmute.config.json''"
  "path_join [''/repo'', ''transmute.config.json''] = ''/repo/transmute.config.json''"
  "path_resolve ''/repo'' ''/repo/opencode.config.ts'' = ''/repo/opencode.config.ts''"
  by (simp_all add: path_join_def path_normalize_def path_resolve_def normalizeString_def
        isAbsolute_def norm_step_def Let_def)

lemma path_normalize_not_Nil: "path_normalize p \<noteq> []"
  by (cases "isAbsolute p") (simp_all add: path_normalize_def Let_def)

lemma path_join_not_Nil: "path_join parts \<noteq> []"
  by (simp add: path_join_def path_normalize_not_Nil Let_def)

lemma findConfigFile_is_json_location:
  "findConfigFile env basePath = Inr (json_location env basePath)"
  by (simp add: findConfigFile_def CONFIG_FILES_def json_location_def fileExists_def
        bindE_simps Let_def split: sum.splits)

lemma configSchema_accepts_objects_only:
  "configSchema zv dh v = Inr c \<Longrightarrow> truthy v"
  by (cases v) (simp_all add: configSchema_def)

lemma loadConfigFromOpencodeConfig_is_exposed_section:
  "loadConfigFromOpencodeConfig env basePath
     = Inr (case exposed_section env basePath of None \<Rightarrow> JUndefined | Some section \<Rightarrow> section)"
  by (simp add: loadConfigFromOpencodeConfig_def exposed_section_def fileExists_def
        bindE_simps Let_def typeof_object_def has_property_def property_def field_def
      split: sum.splits jsval.splits option.splits)

text \<open>
  C7: loading the configuration is never a hard failure. Whatever the base path, the files
  and the module hold, and whichever of the calls to the file system, to \<open>JSON.parse\<close> and
  to \<open>import\<close> throw, \<open>loadConfig\<close> returns a result. The candidate sources are attempted
  in order: the \<open>transmute\<close> section that opencode.config.ts exposes, then the JSON
  configuration file (the first of its two locations that exists), then the built-in
  defaults; a source that is absent, does not parse or does not validate is passed over
  silently, and the result is that of the first attempt that succeeds.
\<close>

theorem loadConfig_attempts_sources_in_order:
  "loadConfig zv dh env basePath =
     Inr (first_success
            [attempt_opencode_config zv dh env basePath, attempt_json_file zv dh env basePath]
            \<lparr>config = defaultConfig dh, source = Default, configPath = None\<rparr>)"
proof -
  let ?defaults = "\<lparr>config = defaultConfig dh, source = Default, configPath = None\<rparr>"
  have json: "bindE (findConfigFile env basePath) (\<lambda>jsonConfigPath.
            let defaults = ?defaults
            in (case jsonConfigPath of
                  None \<Rightarrow> Inr defaults
                | Some p \<Rightarrow>
                    (if p = [] then Inr defaults
                     else
                       (case bindE (loadConfigFromFile env p) (\<lambda>partialConfig.
                               bindE (mergeConfig zv dh partialConfig) (\<lambda>c.
                               Inr \<lparr>config = c, source = Json, configPath = Some p\<rparr>))
                        of Inr r \<Rightarrow> Inr r
                         | Inl _ \<Rightarrow> Inr defaults))))
        = Inr (first_success [attempt_json_file zv dh env basePath] ?defaults)"
  proof (cases "json_location env basePath")
    case None
    then show ?thesis
      by (simp add: findConfigFile_is_json_location attempt_json_file_def bindE_simps)
  next
    case (Some p)
    then have "p \<noteq> []"
      by (auto simp: json_location_def path_join_not_Nil split: if_splits)
    with Some show ?thesis
      by (simp add: findConfigFile_is_json_location attempt_json_file_def loadConfigFromFile_def
            mergeConfig_def bindE_def split: sum.splits)
  qed
  show ?thesis
  proof (cases "attempt_opencode_config zv dh env basePath")
    case None
    then have "bindE (loadConfigFromOpencodeConfig env basePath) (\<lambda>opencodeConfig.
             if truthy opencodeConfig
             then bindE (mergeConfig zv dh opencodeConfig) (\<lambda>c.
                    Inr (Some \<lparr>config = c, source = OpencodeConfigTs,
                               configPath = Some (path_join [basePath, ''opencode.config.ts''])\<rparr>))
             else Inr None) \<noteq> Inr (Some r)" for r
      by (auto simp: loadConfigFromOpencodeConfig_is_exposed_section attempt_opencode_config_def
            mergeConfig_def bindE_def split: option.splits sum.splits if_splits)
    then show ?thesis
      unfolding loadConfig_def json using None
      by (auto split: sum.splits option.splits)
  next
    case (Some r)
    then have "bindE (loadConfigFromOpencodeConfig env basePath) (\<lambda>opencodeConfig.
             if truthy opencodeConfig
             then bindE (mergeConfig zv dh opencodeConfig) (\<lambda>c.
                    Inr (Some \<lparr>config = c, source = OpencodeConfigTs,
                               configPath = Some (path_join [basePath, ''opencode.config.ts''])\<rparr>))
             else Inr None) = Inr (Some r)"
      by (auto simp: loadConfigFromOpencodeConfig_is_exposed_section attempt_opencode_config_def
            mergeConfig_def bindE_def configSchema_accepts_objects_only
          split: option.splits sum.splits)
    then show ?thesis
      unfolding loadConfig_def using Some by simp
  qed
qed

text \<open>The attempts in four environments.\<close>

lemma valid_section_attempts:
  "attempt_opencode_config zv dh valid_section_env ''/repo''
     = Some \<lparr>config = (defaultConfig dh)\<lparr>worktreesDir := ''./from-module''\<rparr>,
             source = OpencodeConfigTs, configPath = Some ''/repo/opencode.config.ts''\<rparr>"
  by (simp add: attempt_opencode_config_def exposed_section_def valid_section_env_def
        example_env_def repo_paths field_def configSchema_def defaultConfig_def
        with_default_def z_string_def bindE_simps Let_def)

lemma invalid_section_attempts:
  "attempt_opencode_config zv dh invalid_section_env ''/repo'' = None"
  "attempt_json_file zv dh invalid_section_env ''/repo''
     = Some \<lparr>config = defaultConfig dh, source = Json,
             configPath = Some ''/repo/transmute.config.json''\<rparr>"
  by (simp_all add: attempt_opencode_config_def attempt_json_file_def exposed_section_def
        json_location_def invalid_section_env_def example_env_def repo_paths field_def
        configSchema_def defaultConfig_def with_default_def z_string_def z_positive_int_def
        bindE_simps Let_def)

lemma broken_json_attempts:
  "attempt_opencode_config zv dh broken_json_env ''/repo'' = None"
  "attempt_json_file zv dh broken_json_env ''/repo'' = None"
  by (simp_all add: attempt_opencode_config_def attempt_json_file_def exposed_section_def
        json_location_def broken_json_env_def example_env_def repo_paths)

lemma broken_then_valid_json_attempts:
  "attempt_opencode_config zv dh broken_then_valid_json_env ''/repo'' = None"
  "json_location broken_then_valid_json_env ''/repo''
     = Some ''/repo/.opencode/transmute.config.json''"
  "attempt_json_file zv dh broken_then_valid_json_env ''/repo'' = None"
  by (simp_all add: attempt_opencode_config_def attempt_json_file_def exposed_section_def
        json_location_def broken_then_valid_json_env_def example_env_def repo_paths)

theorem loadConfig_attempts_sources_in_order_witness:
  "loadConfig Zod4 example_defaultHooks valid_section_env ''/repo''
     = Inr \<lparr>config = (defaultConfig example_defaultHooks)\<lparr>worktreesDir := ''./from-module''\<rparr>,
            source = OpencodeConfigTs, configPath = Some ''/repo/opencode.config.ts''\<rparr>
   \<and> loadConfig Zod4 example_defaultHooks invalid_section_env ''/repo''
     = Inr \<lparr>config = defaultConfig example_defaultHooks, source = Json,
            configPath = Some ''/repo/transmute.config.json''\<rparr>
   \<and> loadConfig Zod4 example_defaultHooks broken_json_env ''/repo''
     = Inr \<lparr>config = defaultConfig example_defaultHooks, source = Default, configPath = None\<rparr>
   \<and> loadConfig Zod3 example_defaultHooks broken_then_valid_json_env ''/repo''
     = Inr \<lparr>config = defaultConfig example_defaultHooks, source = Default, configPath = None\<rparr>"
  using loadConfig_attempts_sources_in_order
          [of Zod4 example_defaultHooks valid_section_env "''/repo''"]
        loadConfig_attempts_sources_in_order
          [of Zod4 example_defaultHooks invalid_section_env "''/repo''"]
        loadConfig_attempts_sources_in_order
          [of Zod4 example_defaultHooks broken_json_env "''/repo''"]
        loadConfig_attempts_sources_in_order
          [of Zod3 example_defaultHooks broken_then_valid_json_env "''/repo''"]
  by (simp add: valid_section_attempts invalid_section_attempts broken_json_attempts
        broken_then_valid_json_attempts)

text \<open>
  Of the two JSON locations only the first that exists is read: when it does not parse, the
  second one is not tried and the defaults are returned.
\<close>

lemma loadConfig_reads_one_json_file:
  "loadConfig zv dh broken_then_valid_json_env ''/repo''
     = Inr \<lparr>config = defaultConfig dh, source = Default, configPath = None\<rparr>"
  by (simp add: loadConfig_def loadConfigFromOpencodeConfig_def findConfigFile_def
        CONFIG_FILES_def loadConfigFromFile_def fileExists_def
        broken_then_valid_json_env_def example_env_def repo_paths bindE_simps Let_def)

subsection \<open>Precedence\<close>

lemma invalid_section_exposed:
  "loadConfigFromOpencodeConfig invalid_section_env ''/repo''
     = Inr (JObj [(''worktreesDir'', JStr ''./from-module''),
                  (''maxBranchSlugLength'', JNum (- 1))])"
  by (simp add: invalid_section_env_def loadConfigFromOpencodeConfig_def repo_paths
        fileExists_def example_env_def bindE_simps field_def typeof_object_def
        has_property_def property_def Let_def)

lemma invalid_section_rejected:
  "\<exists>e. mergeConfig zv dh (JObj [(''worktreesDir'', JStr ''./from-module''),
                             (''maxBranchSlugLength'', JNum (- 1))]) = Inl e"
  by (simp add: mergeConfig_def configSchema_def field_def with_default_def z_string_def
        bindE_simps z_positive_int_def)

lemma json_file_found:
  "findConfigFile invalid_section_env ''/repo'' = Inr (Some ''/repo/transmute.config.json'')"
  "findConfigFile valid_section_env ''/repo'' = Inr (Some ''/repo/transmute.config.json'')"
  by (simp_all add: findConfigFile_def CONFIG_FILES_def repo_paths fileExists_def
        invalid_section_env_def valid_section_env_def example_env_def bindE_simps)

lemma json_file_read:
  "loadConfigFromFile invalid_section_env ''/repo/transmute.config.json'' = Inr (JObj [])"
  by (simp add: loadConfigFromFile_def invalid_section_env_def example_env_def bindE_simps)

lemma invalid_section_json_wins:
  "loadConfig zv dh invalid_section_env ''/repo''
     = Inr \<lparr>config = defaultConfig dh, source = Json,
            configPath = Some ''/repo/transmute.config.json''\<rparr>"
proof -
  obtain e where e:
    "mergeConfig zv dh
       (JObj [(''worktreesDir'', JStr ''./from-module''),
              (''maxBranchSlugLength'', JNum (- 1))]) = Inl e"
    using invalid_section_rejected by blast
  show ?thesis
    unfolding loadConfig_def
    by (simp add: invalid_section_exposed e json_file_found json_file_read mergeConfig_empty
          bindE_simps)
qed

text \<open>
  C3, as stated, fails: a module that exposes a \<open>transmute\<close> section does not win over the
  JSON file when the section does not validate. Here the section sets \<open>worktreesDir\<close> to
  "./from-module" and \<open>maxBranchSlugLength\<close> to -1; under either version of the validator
  the result comes from the JSON file.
\<close>

theorem loadConfig_invalid_section_loses_to_json:
  "loadConfigFromOpencodeConfig invalid_section_env ''/repo''
     = Inr (JObj [(''worktreesDir'', JStr ''./from-module''),
                  (''maxBranchSlugLength'', JNum (- 1))])
   \<and> loadConfig Zod3 example_defaultHooks invalid_section_env ''/repo''
     = Inr \<lparr>config = defaultConfig example_defaultHooks, source = Json,
            configPath = Some ''/repo/transmute.config.json''\<rparr>
   \<and> loadConfig Zod4 example_defaultHooks invalid_section_env ''/repo''
     = Inr \<lparr>config = defaultConfig example_defaultHooks, source = Json,
            configPath = Some ''/repo/transmute.config.json''\<rparr>
   \<and> worktreesDir (defaultConfig example_defaultHooks) = ''./worktrees''"
  by (simp add: invalid_section_exposed invalid_section_json_wins defaultConfig_def)

text \<open>
  C3, amended: a \<open>transmute\<close> section of opencode.config.ts that is truthy and passes the
  schema wins over any JSON configuration file: the result is the validated section, with
  source "opencode.config.ts" and the path of that file. When no configuration source is
  present (none of the three files can be accessed), the built-in defaults are returned
  with source "default" and no \<open>configPath\<close>.
\<close>

theorem loadConfig_precedence:
  "(loadConfigFromOpencodeConfig env basePath = Inr section \<and> truthy section
      \<and> mergeConfig zv dh section = Inr c
      \<longrightarrow> loadConfig zv dh env basePath
            = Inr \<lparr>config = c, source = OpencodeConfigTs,
                   configPath = Some (path_join [basePath, ''opencode.config.ts''])\<rparr>)
   \<and> ((\<forall>f \<in> set (''opencode.config.ts'' # CONFIG_FILES).
          \<exists>e. fs_access env (path_join [basePath, f]) = Inl e)
      \<longrightarrow> loadConfig zv dh env basePath
            = Inr \<lparr>config = defaultConfig dh, source = Default, configPath = None\<rparr>)"
proof (intro conjI impI)
  assume "loadConfigFromOpencodeConfig env basePath = Inr section \<and> truthy section
            \<and> mergeConfig zv dh section = Inr c"
  then show "loadConfig zv dh env basePath
               = Inr \<lparr>config = c, source = OpencodeConfigTs,
                      configPath = Some (path_join [basePath, ''opencode.config.ts''])\<rparr>"
    by (simp add: loadConfig_def bindE_simps)
next
  assume absent: "\<forall>f \<in> set (''opencode.config.ts'' # CONFIG_FILES).
                    \<exists>e. fs_access env (path_join [basePath, f]) = Inl e"
  then have no_module: "loadConfigFromOpencodeConfig env basePath = Inr JUndefined"
    by (auto simp: loadConfigFromOpencodeConfig_def fileExists_def bindE_simps Let_def)
  from absent have no_json: "findConfigFile env basePath = Inr None"
    by (auto simp: findConfigFile_def CONFIG_FILES_def fileExists_def bindE_simps Let_def)
  show "loadConfig zv dh env basePath
          = Inr \<lparr>config = defaultConfig dh, source = Default, configPath = None\<rparr>"
    by (simp add: loadConfig_def no_module no_json bindE_simps)
qed

lemma valid_section_exposed:
  "loadConfigFromOpencodeConfig valid_section_env ''/repo''
     = Inr (JObj [(''worktreesDir'', JStr ''./from-module'')])"
  by (simp add: valid_section_env_def loadConfigFromOpencodeConfig_def repo_paths
        fileExists_def example_env_def bindE_simps field_def typeof_object_def
        has_property_def property_def Let_def)

lemma valid_section_accepted:
  "mergeConfig zv dh (JObj [(''worktreesDir'', JStr ''./from-module'')])
     = Inr ((defaultConfig dh)\<lparr>worktreesDir := ''./from-module''\<rparr>)"
  by (simp add: mergeConfig_def configSchema_def defaultConfig_def field_def with_default_def
        z_string_def bindE_simps)

lemma no_config_absent:
  "\<forall>f \<in> set (''opencode.config.ts'' # CONFIG_FILES).
     \<exists>e. fs_access no_config_env (path_join [''/repo'', f]) = Inl e"
  by (simp add: CONFIG_FILES_def no_config_env_def example_env_def)

theorem loadConfig_precedence_witness:
  "findConfigFile valid_section_env ''/repo'' = Inr (Some ''/repo/transmute.config.json'')
   \<and> loadConfig Zod3 example_defaultHooks valid_section_env ''/repo''
     = Inr \<lparr>config = (defaultConfig example_defaultHooks)\<lparr>worktreesDir := ''./from-module''\<rparr>,
            source = OpencodeConfigTs, configPath = Some ''/repo/opencode.config.ts''\<rparr>
   \<and> loadConfig Zod4 example_defaultHooks valid_section_env ''/repo''
     = Inr \<lparr>config = (defaultConfig example_defaultHooks)\<lparr>worktreesDir := ''./from-module''\<rparr>,
            source = OpencodeConfigTs, configPath = Some ''/repo/opencode.config.ts''\<rparr>
   \<and> loadConfig Zod3 example_defaultHooks no_config_env ''/repo''
     = Inr \<lparr>config = defaultConfig example_defaultHooks, source = Default, configPath = None\<rparr>
   \<and> loadConfig Zod4 example_defaultHooks no_config_env ''/repo''
     = Inr \<lparr>config = defaultConfig example_defaultHooks, source = Default, configPath = None\<rparr>"
  using loadConfig_precedence
          [of valid_section_env "''/repo''" "JObj [(''worktreesDir'', JStr ''./from-module'')]"
              Zod3 example_defaultHooks
              "(defaultConfig example_defaultHooks)\<lparr>worktreesDir := ''./from-module''\<rparr>"]
        loadConfig_precedence
          [of valid_section_env "''/repo''" "JObj [(''worktreesDir'', JStr ''./from-module'')]"
              Zod4 example_defaultHooks
              "(defaultConfig example_defaultHooks)\<lparr>worktreesDir := ''./from-module''\<rparr>"]
        loadConfig_precedence [of no_config_env "''/repo''" _ Zod3 example_defaultHooks]
        loadConfig_precedence [of no_config_env "''/repo''" _ Zod4 example_defaultHooks]
        no_config_absent
  by (simp add: valid_section_exposed valid_section_accepted json_file_found repo_paths)

section \<open>Properties of the start-task tool\<close>

text \<open>
  The \<open>execute\<close> of the plugin that loads the configuration has the boundary: whatever
  \<open>startTask\<close> does, a payload is returned, and what \<open>startTask\<close> throws becomes the payload
  \<open>failed\<close> with the message of the error.
\<close>

lemma execute_never_raises:
  "\<exists>payload. execute startTask cfg src basePath client adapter hks args sessionID = Inr payload"
  by (simp add: execute_def split: sum.splits)

lemma execute_reports_failure:
  assumes "startTask
             (args\<lparr>arg_baseBranch := Some (or_else (arg_baseBranch args) (defaultBaseBranch cfg))\<rparr>)
             basePath
             \<lparr>opt_client = (if useAiBranchNaming cfg then Some client else None),
              opt_opencodeSessionId = sessionID, opt_terminal = adapter,
              opt_openTerminal = autoOpenTerminal cfg, opt_runHooks = autoRunHooks cfg,
              opt_hooks = hks\<rparr> = Inl err"
  shows "execute startTask cfg src basePath client adapter hks args sessionID
           = Inr \<lparr>p_status = Failed, p_message = ''Error: '' @ errorMessage err,
                  p_taskId = or_else (Some (arg_taskId args)) ''unknown'',
                  p_taskName = None, p_branch = None, p_worktreePath = None,
                  p_opencodeSessionId = None, p_configSource = None\<rparr>"
  using assms by (simp add: execute_def bindE_simps)

text \<open>
  C2 says that the top-level call never raises past its own boundary. The \<open>execute\<close> of the
  plugin without configuration has no boundary: when the repository root cannot be found,
  and when \<open>startTask\<close> throws, the error leaves \<open>execute\<close>; a result \<open>failed\<close> that
  \<open>startTask\<close> returns is reported with the message of a resumed worktree.
\<close>

theorem execute_without_config_propagates:
  "execute_without_config (Inl (NotARepositoryError ''Not inside a git repository''))
       (\<lambda>input basePath options. Inr example_result) () example_args ''session-123''
     = Inl (NotARepositoryError ''Not inside a git repository'')
   \<and> execute_without_config (Inr ''/repo'')
       (\<lambda>input basePath options. Inl (WorktreeCreationError ''Unknown base branch: main''))
       () example_args ''session-123''
     = Inl (WorktreeCreationError ''Unknown base branch: main'')
   \<and> p_message (projr (execute_without_config (Inr ''/repo'')
       (\<lambda>input basePath options.
          Inr (example_result\<lparr>status := Failed, message := Some ''Unknown base branch: main''\<rparr>))
       () example_args ''session-123''))
     = ''Resumed existing worktree for task: task-1''"
  by (simp add: execute_without_config_def bindE_simps example_result_def)

section \<open>Properties of the workspace core\<close>

subsection \<open>Slugs\<close>





lemma scenario_A_branch_name:
  "generateBranchName (defaultConfig dh) scenario_A_input (supplied_branch_name scenario_A_input)
     = \<lparr>bn_type = Feat, slug = ''task-1-integration-test-task''\<rparr>"
  by (simp add: generateBranchName_def supplied_branch_name_def scenario_A_input_def
        defaultConfig_def slugify_def toLowerCase_def toLowerCase_char_def alphanumeric_def
        trim_hyphens_def)

lemma resume_input_branch_name:
  "supplied_branch_name resume_input = Some \<lparr>bn_type = Fix, slug = ''task-2-resume-task''\<rparr>"
  "generateBranchName (defaultConfig dh) resume_input (supplied_branch_name resume_input)
     = \<lparr>bn_type = Fix, slug = ''task-2-resume-task''\<rparr>"
  by (simp_all add: generateBranchName_def supplied_branch_name_def resume_input_def
        defaultConfig_def)




subsection \<open>Paths\<close>

lemma split_on_not_Nil: "split_on c xs \<noteq> []"
  by (induction xs) (auto split: list.splits)

lemma split_on_append: "split_on c (xs @ c # ys) = split_on c xs @ split_on c ys"
proof (induction xs)
  case Nil
  show ?case by simp
next
  case (Cons x xs)
  obtain s ss where s: "split_on c xs = s # ss"
    using split_on_not_Nil[of c xs] by (cases "split_on c xs") auto
  show ?case using Cons s by simp
qed

lemma norm_step_dot: "norm_step a st ''.'' = st"
  by (simp add: norm_step_def)

lemma normalizeString_dot_segment:
  "normalizeString a (r @ ''/./'' @ t) = normalizeString a (r @ ''/'' @ t)"
proof -
  have 1: "split_on CHR ''/'' (r @ ''/./'' @ t)
             = split_on CHR ''/'' r @ [''.''] @ split_on CHR ''/'' t"
    using split_on_append[of "CHR ''/''" r "''.'' @ CHR ''/'' # t"]
          split_on_append[of "CHR ''/''" "''.''" t]
    by simp
  have 2: "split_on CHR ''/'' (r @ ''/'' @ t) = split_on CHR ''/'' r @ split_on CHR ''/'' t"
    using split_on_append[of "CHR ''/''" r t] by simp
  show ?thesis
    unfolding normalizeString_def 1 2 by (simp add: norm_step_dot)
qed

lemma normalizeString_leading_dot:
  "normalizeString a (''./'' @ t) = normalizeString a t"
proof -
  have 1: "split_on CHR ''/'' (''./'' @ t) = [''.''] @ split_on CHR ''/'' t"
    using split_on_append[of "CHR ''/''" "''.''" t] by simp
  show ?thesis
    unfolding normalizeString_def 1 by (simp add: norm_step_dot)
qed

text \<open>The default \<open>./worktrees\<close> joins like \<open>worktrees\<close>, under any root.\<close>

lemma path_join_dot_worktrees:
  assumes "d \<noteq> []"
  shows "path_join [r, ''./worktrees'', d] = path_join [r, ''worktrees'', d]"
proof (cases "r = []")
  case True
  have "normalizeString True (''./'' @ (''worktrees/'' @ d))
          = normalizeString True (''worktrees/'' @ d)"
    by (rule normalizeString_leading_dot)
  then show ?thesis
    using True assms
    by (simp add: path_join_def path_normalize_def isAbsolute_def Let_def)
next
  case False
  have n: "normalizeString a (r @ ''/./'' @ (''worktrees/'' @ d))
           = normalizeString a (r @ ''/'' @ (''worktrees/'' @ d))" for a
    by (rule normalizeString_dot_segment)
  have ab: "isAbsolute (r @ x) = isAbsolute r" for x
    using False by (cases r) (simp_all add: isAbsolute_def)
  show ?thesis
    using False assms n
    by (simp add: path_join_def path_normalize_def ab Let_def)
qed

subsection \<open>Session store and worktrees\<close>

lemma find_upsert: "find (\<lambda>x. taskId x = taskId s) (upsert s xs) = Some s"
proof (cases "list_ex (\<lambda>x. taskId x = taskId s) xs")
  case True
  then have "find (\<lambda>x. taskId x = taskId s)
               (map (\<lambda>x. if taskId x = taskId s then s else x) xs) = Some s"
    by (induction xs) auto
  with True show ?thesis by (simp add: upsert_def)
next
  case False
  then have "find (\<lambda>x. taskId x = taskId s) (xs @ [s]) = Some s"
    by (induction xs) auto
  with False show ?thesis by (simp add: upsert_def)
qed

lemma findSessionByTask_saveSession:
  "findSessionByTask (saveSession repo s) (taskId s) = Some s"
  by (simp add: findSessionByTask_def saveSession_def loadState_def find_upsert)

lemma findSessionByTask_taskId:
  "findSessionByTask repo t = Some s \<Longrightarrow> taskId s = t"
  by (auto simp: findSessionByTask_def find_Some_iff)

lemma find_filter_out: "find (\<lambda>x. taskId x = t) (filter (\<lambda>x. taskId x \<noteq> t) xs) = None"
  by (induction xs) auto

lemma removeSession_not_found: "findSessionByTask (removeSession repo t) t = None"
proof (cases "list_ex (\<lambda>s. taskId s = t) (loadState repo)")
  case True
  then show ?thesis
    by (simp add: removeSession_def findSessionByTask_def loadState_def find_filter_out)
next
  case False
  then have "find (\<lambda>s. taskId s = t) (loadState repo) = None"
    by (simp add: find_None_iff list_ex_iff)
  with False show ?thesis
    by (simp add: removeSession_def findSessionByTask_def)
qed

lemma removeSession_no_entry:
  "\<forall>s \<in> set (loadState (removeSession repo t)). taskId s \<noteq> t"
  by (auto simp: removeSession_def loadState_def list_ex_iff)

lemma saveSession_worktrees: "worktrees (saveSession repo s) = worktrees repo"
  by (simp add: saveSession_def)

lemma createWorktree_lists_path:
  "createWorktree cfg nb bb bp repo = Inr (p, repo') \<Longrightarrow> p \<in> set (map fst (worktrees repo'))"
  by (auto simp: createWorktree_def Let_def split: if_splits)

lemma branch_string_not_main: "branch_string bn \<noteq> ''main''"
  by (cases "bn_type bn") (simp_all add: branch_string_def branchType_name_def)

lemma createWorktree_fresh:
  "createWorktree cfg (branch_string bn) ''main'' bp fresh_repository
     = Inr (path_join [bp, worktreesDir cfg, replace_slashes (branch_string bn)],
            \<lparr>branches = [''main'', branch_string bn],
             worktrees = [(path_join [bp, worktreesDir cfg, replace_slashes (branch_string bn)],
                           branch_string bn)],
             stateFile = None\<rparr>)"
  by (simp add: createWorktree_def fresh_repository_def branch_string_not_main Let_def)

subsection \<open>The orchestrator\<close>

lemma create_new_workspace_Inr:
  assumes "create_new_workspace cfg co opts input bp stale repo = Inr (res, repo', lg)"
  shows "status res = Created \<and> (\<exists>p s. res_worktreePath res = Some p
           \<and> p \<in> set (map fst (worktrees repo'))
           \<and> findSessionByTask repo' (in_taskId input) = Some s
           \<and> Some (branch s) = res_branch res \<and> worktreePath s = p)"
proof -
  from assms obtain bn p repo1 where
    cw: "createWorktree cfg (branch_string bn) (requested_base_branch cfg input) bp repo
           = Inr (p, repo1)"
    and r: "res_worktreePath res = Some p" "status res = Created"
           "res_branch res = Some (branch_string bn)"
    and rp: "repo' = saveSession repo1
               \<lparr>taskId = in_taskId input, taskName = in_title input,
                branch = branch_string bn, worktreePath = p,
                opencodeSessionId = cw_opencodeSessionId opts,
                createdAt = (case stale of None \<Rightarrow> now co | Some s \<Rightarrow> createdAt s),
                updatedAt = now co\<rparr>"
    unfolding create_new_workspace_def bindE_def Let_def
    by (auto split: sum.splits prod.splits)
  have "p \<in> set (map fst (worktrees repo'))"
    using createWorktree_lists_path[OF cw] by (simp add: rp saveSession_worktrees)
  moreover have "findSessionByTask repo' (in_taskId input) = Some
               \<lparr>taskId = in_taskId input, taskName = in_title input,
                branch = branch_string bn, worktreePath = p,
                opencodeSessionId = cw_opencodeSessionId opts,
                createdAt = (case stale of None \<Rightarrow> now co | Some s \<Rightarrow> createdAt s),
                updatedAt = now co\<rparr>"
    unfolding rp
    using findSessionByTask_saveSession[of repo1
            "\<lparr>taskId = in_taskId input, taskName = in_title input,
              branch = branch_string bn, worktreePath = p,
              opencodeSessionId = cw_opencodeSessionId opts,
              createdAt = (case stale of None \<Rightarrow> now co | Some s \<Rightarrow> createdAt s),
              updatedAt = now co\<rparr>"]
    by simp
  ultimately show ?thesis using r by simp
qed

lemma resume_workspace_result:
  assumes "resume_workspace co opts s repo = (res, repo', lg)"
  shows "status res = Existing \<and> res_worktreePath res = Some (worktreePath s)
         \<and> res_branch res = Some (branch s)
         \<and> worktrees repo' = worktrees repo
         \<and> (\<exists>s'. findSessionByTask repo' (taskId s) = Some s'
                \<and> branch s' = branch s \<and> worktreePath s' = worktreePath s)"
proof -
  let ?s1 = "s\<lparr>opencodeSessionId :=
                    (case cw_opencodeSessionId opts of
                       None \<Rightarrow> opencodeSessionId s
                     | Some i \<Rightarrow> Some i),
                 updatedAt := now co\<rparr>"
  from assms have r: "status res = Existing" "res_worktreePath res = Some (worktreePath s)"
      "res_branch res = Some (branch s)" and rp: "repo' = saveSession repo ?s1"
    unfolding resume_workspace_def Let_def by auto
  have "findSessionByTask repo' (taskId ?s1) = Some ?s1"
    unfolding rp by (rule findSessionByTask_saveSession)
  then have "findSessionByTask repo' (taskId s) = Some ?s1" by simp
  then show ?thesis using r by (simp add: rp saveSession_worktrees)
qed

lemma createWorkspace_success:
  assumes "createWorkspace cfg co opts input bp repo = (res, repo', lg)"
    and "status res \<noteq> Failed"
  shows "\<exists>p s. res_worktreePath res = Some p
           \<and> p \<in> set (map fst (worktrees repo'))
           \<and> findSessionByTask repo' (in_taskId input) = Some s
           \<and> Some (branch s) = res_branch res \<and> worktreePath s = p"
proof (cases "findSessionByTask repo (in_taskId input)")
  case None
  with assms have "create_new_workspace cfg co opts input bp None repo = Inr (res, repo', lg)"
    by (auto simp: createWorkspace_def createWorkspace_steps_def split: sum.splits)
  from create_new_workspace_Inr[OF this] show ?thesis by blast
next
  case (Some s)
  note found = this
  show ?thesis
  proof (cases "worktreePath s \<in> set (map fst (worktrees repo))")
    case True
    with assms found have rw: "resume_workspace co opts s repo = (res, repo', lg)"
      by (simp add: createWorkspace_def createWorkspace_steps_def)
    have t: "taskId s = in_taskId input"
      using found by (rule findSessionByTask_taskId)
    from resume_workspace_result[OF rw] True t show ?thesis by auto
  next
    case False
    with assms found
    have "create_new_workspace cfg co opts input bp (Some s) repo = Inr (res, repo', lg)"
      by (auto simp: createWorkspace_def createWorkspace_steps_def split: sum.splits)
    from create_new_workspace_Inr[OF this] show ?thesis by blast
  qed
qed

lemma scenario_A_run:
  "createWorkspace (defaultConfig dh) co opts scenario_A_input repoRoot fresh_repository =
     (let path = path_join [repoRoot, ''worktrees'', ''feat-task-1-integration-test-task''];
          s = \<lparr>taskId = ''task-1'', taskName = ''Integration Test Task'',
               branch = ''feat/task-1-integration-test-task'', worktreePath = path,
               opencodeSessionId = cw_opencodeSessionId opts,
               createdAt = now co, updatedAt = now co\<rparr>
      in (\<lparr>status = Created, res_taskId = ''task-1'',
           res_taskName = Some ''Integration Test Task'',
           res_branch = Some ''feat/task-1-integration-test-task'',
           res_worktreePath = Some path,
           res_opencodeSessionId = cw_opencodeSessionId opts, message = None\<rparr>,
          \<lparr>branches = [''main'', ''feat/task-1-integration-test-task''],
           worktrees = [(path, ''feat/task-1-integration-test-task'')],
           stateFile = Some [s]\<rparr>,
          open_terminal co opts path ''Integration Test Task''
            (if cw_runHooks opts
             then empty_log\<lparr>failed_hooks :=
                    runHooks co (case afterCreate (cw_hooks opts) of
                                   None \<Rightarrow> []
                                 | Some cmds \<Rightarrow> cmds) path\<rparr>
             else empty_log)))"
proof -
  have none: "findSessionByTask fresh_repository (in_taskId scenario_A_input) = None"
    by (simp add: findSessionByTask_def loadState_def fresh_repository_def)
  have base: "requested_base_branch (defaultConfig dh) scenario_A_input = ''main''"
    by (simp add: requested_base_branch_def scenario_A_input_def defaultConfig_def)
  have bs: "branch_string \<lparr>bn_type = Feat, slug = ''task-1-integration-test-task''\<rparr>
              = ''feat/task-1-integration-test-task''"
    by (simp add: branch_string_def branchType_name_def)
  have wt: "createWorktree (defaultConfig dh) ''feat/task-1-integration-test-task'' ''main''
              repoRoot fresh_repository
            = Inr (path_join [repoRoot, ''worktrees'', ''feat-task-1-integration-test-task''],
                   \<lparr>branches = [''main'', ''feat/task-1-integration-test-task''],
                    worktrees = [(path_join [repoRoot, ''worktrees'',
                                    ''feat-task-1-integration-test-task''],
                                  ''feat/task-1-integration-test-task'')],
                    stateFile = None\<rparr>)"
    using createWorktree_fresh[of "defaultConfig dh"
            "\<lparr>bn_type = Feat, slug = ''task-1-integration-test-task''\<rparr>" repoRoot]
          path_join_dot_worktrees[of "''feat-task-1-integration-test-task''" repoRoot]
    by (simp add: bs replace_slashes_def defaultConfig_def)
  show ?thesis
    unfolding createWorkspace_def createWorkspace_steps_def none create_new_workspace_def
      scenario_A_branch_name base
    by (simp add: bs wt bindE_simps Let_def saveSession_def loadState_def upsert_def
          scenario_A_input_def)
qed

lemma scenario_A_worktree_exists:
  "worktreeExists ''feat/task-1-integration-test-task''
     (fst (snd (createWorkspace (defaultConfig dh) co opts scenario_A_input repoRoot
                  fresh_repository)))"
  by (simp add: scenario_A_run Let_def worktreeExists_def)

text \<open>
  C6: end-to-end scenario A. For the input with taskId "task-1", title "Integration Test
  Task", description "Testing the full flow" and priority "high", against a fresh repository
  whose main branch has one commit and with the default configuration, \<open>createWorkspace\<close>
  returns status "created", the branch feat/task-1-integration-test-task, and as
  worktreePath the repository root joined with "worktrees" and the branch name with every
  "/" replaced by "-"; afterwards the session is found by the taskId "task-1".
\<close>

theorem scenario_A_creates_workspace:
  "case createWorkspace (defaultConfig dh) co opts scenario_A_input repoRoot fresh_repository of
     (res, repo, lg) \<Rightarrow>
       status res = Created
       \<and> res_branch res = Some ''feat/task-1-integration-test-task''
       \<and> res_worktreePath res
           = Some (path_join [repoRoot, ''worktrees'',
                              replace_slashes ''feat/task-1-integration-test-task''])
       \<and> (\<exists>s. findSessionByTask repo ''task-1'' = Some s
                \<and> branch s = ''feat/task-1-integration-test-task''
                \<and> Some (worktreePath s) = res_worktreePath res)"
  unfolding scenario_A_run
  by (simp add: Let_def replace_slashes_def findSessionByTask_def loadState_def)

lemma createWorkspace_fresh_status:
  "status (fst (createWorkspace cfg co opts input basePath fresh_repository))
     = (if requested_base_branch cfg input \<in> set (branches fresh_repository)
        then Created else Failed)"
  by (simp add: createWorkspace_def createWorkspace_steps_def create_new_workspace_def
        findSessionByTask_def loadState_def createWorktree_def fresh_repository_def
        branch_string_not_main bindE_simps Let_def)




text \<open>
  C4: session and worktree are independent. After \<open>createWorkspace\<close> has succeeded for a
  taskId, \<open>removeWorktree\<close> on the path of the workspace succeeds and leaves the session
  findable by \<open>findSessionByTask\<close> for that taskId; a \<open>removeSession\<close> for the taskId after
  it makes \<open>findSessionByTask\<close> return nothing and leaves no entry with that taskId in the
  state that \<open>loadState\<close> returns.
\<close>

theorem session_outlives_worktree:
  assumes "createWorkspace cfg co opts input basePath repo = (res, repo1, lg)"
    and "status res \<noteq> Failed"
  shows "\<exists>path repo2.
           res_worktreePath res = Some path
           \<and> removeWorktree path force repo1 = Inr repo2
           \<and> findSessionByTask repo2 (in_taskId input) \<noteq> None
           \<and> findSessionByTask (removeSession repo2 (in_taskId input)) (in_taskId input) = None
           \<and> (\<forall>s \<in> set (loadState (removeSession repo2 (in_taskId input))).
                 taskId s \<noteq> in_taskId input)"
proof -
  from createWorkspace_success[OF assms] obtain p s where
    p: "res_worktreePath res = Some p" "p \<in> set (map fst (worktrees repo1))"
    and s: "findSessionByTask repo1 (in_taskId input) = Some s"
    by blast
  define repo2 where "repo2 = repo1\<lparr>worktrees := filter (\<lambda>w. fst w \<noteq> p) (worktrees repo1)\<rparr>"
  have rm: "removeWorktree p force repo1 = Inr repo2"
    using p(2) by (simp add: removeWorktree_def repo2_def)
  have "findSessionByTask repo2 (in_taskId input) = Some s"
    using s by (simp add: findSessionByTask_def loadState_def repo2_def)
  then show ?thesis
    using p(1) rm removeSession_not_found removeSession_no_entry by blast
qed

theorem session_outlives_worktree_witness:
  "(let r = createWorkspace (defaultConfig example_defaultHooks) example_collaborators
              example_options scenario_A_input ''/tmp/repo'' fresh_repository
    in status (fst r) \<noteq> Failed
       \<and> (\<exists>path repo2.
             res_worktreePath (fst r) = Some path
             \<and> removeWorktree path True (fst (snd r)) = Inr repo2
             \<and> findSessionByTask repo2 ''task-1'' \<noteq> None
             \<and> findSessionByTask (removeSession repo2 ''task-1'') ''task-1'' = None
             \<and> (\<forall>s \<in> set (loadState (removeSession repo2 ''task-1'')). taskId s \<noteq> ''task-1'')))"
proof -
  define r where
    "r = createWorkspace (defaultConfig example_defaultHooks) example_collaborators
           example_options scenario_A_input ''/tmp/repo'' fresh_repository"
  have run: "createWorkspace (defaultConfig example_defaultHooks) example_collaborators
               example_options scenario_A_input ''/tmp/repo'' fresh_repository
             = (fst r, fst (snd r), snd (snd r))"
    by (simp add: r_def)
  have ok: "status (fst r) \<noteq> Failed"
    by (simp add: r_def scenario_A_run Let_def)
  have tid: "in_taskId scenario_A_input = ''task-1''"
    by (simp add: scenario_A_input_def)
  show ?thesis
    using ok session_outlives_worktree [OF run ok, of True]
    by (simp add: Let_def r_def tid)
qed

end
